theory Spec2Isabelle
  imports Main
begin

section \<open>Boot-stage script driver (native/jni/core/scripting.cpp)\<close>

text \<open>
  The driver runs the scripts of a stage directory (\<open>exec_common_scripts\<close>) and the
  per-module scripts of a stage (\<open>exec_module_scripts\<close>). For the stage
  \<open>post-fs-data\<close> the three macros \<open>PFS_SETUP\<close>, \<open>PFS_WAIT\<close> and \<open>PFS_DONE\<close> add
  a process subtree, a timer process and a race between script completion and the timer.

  The model is the view of ONE process executing the function. The operating system is
  a record of oracles: what the n-th call of \<open>xfork\<close>, of \<open>waitpid(-1, ...)\<close> and of
  \<open>clock_gettime\<close> made by this process returns, and what the file system answers.
  \<open>fork\<close> returns in two processes; each of them is one run of the model, told apart
  by the value the oracle gives (\<open>0\<close> in the child, the child's pid in the parent, a
  negative value on failure). Every system call and log line the process makes is
  appended to \<open>trace\<close>, in program order.

  A \<open>string\<close> is the content of a C string, without its terminator; the buffers
  \<open>path[4096]\<close> are taken to be large enough for the paths written into them. The file
  system answers by name: the same name gets the same answer throughout one run.
\<close>

subsection \<open>Data\<close>

text \<open>
  \<open>struct timespec\<close>. The fields are signed machine integers, read here as \<open>int\<close>: the
  one addition made on them adds a small constant to a reading of the monotonic clock.
\<close>

record timespec =
  tv_sec :: int
  tv_nsec :: int

text \<open>The values of \<open>dirent::d_type\<close>.\<close>

datatype file_type =
  DT_UNKNOWN | DT_FIFO | DT_CHR | DT_DIR | DT_BLK | DT_REG | DT_LNK | DT_SOCK | DT_WHT

record dirent =
  d_type :: file_type
  d_name :: string

text \<open>The fork functions an \<open>exec_t\<close> can carry in its \<open>.fork\<close> member.\<close>

datatype fork_fn = xfork | fork_dont_care | fork_no_orphan

datatype event =
    LOGI string
  | LOGW string
  | Fork int
  | Waitpid int
  | Waitpid_any int
  | Clock_nanosleep timespec
  | Exec_command fork_fn string
  | Exec_command_sync fork_fn string
  | Kill int

text \<open>
  \<open>Fork r\<close>: this process called \<open>xfork()\<close> and got \<open>r\<close>.
  \<open>Waitpid p\<close>: \<open>waitpid(p, nullptr, 0)\<close>, blocking on the child \<open>p\<close>.
  \<open>Waitpid_any r\<close>: \<open>waitpid(-1, nullptr, 0)\<close>, blocking on any child, returned \<open>r\<close>.
  \<open>Clock_nanosleep t\<close>: \<open>clock_nanosleep(CLOCK_MONOTONIC, TIMER_ABSTIME, &t, nullptr)\<close>.
  \<open>Exec_command f p\<close>: \<open>exec_command(exec, BBEXEC_CMD, p)\<close> with \<open>exec.fork = f\<close> and
  \<open>exec.pre_exec = set_script_env\<close>; the launcher itself is outside this file.
  \<open>Kill p\<close>: \<open>kill(p, SIGKILL)\<close>.
\<close>

text \<open>How a function of the driver ends: it returns to its caller, or the process exits.\<close>

datatype outcome = Return | Exit int

text \<open>
  Constants that come from headers outside this file (\<open>magisk.hpp\<close>): they are
  parameters of the model.
\<close>

record config =
  SECURE_DIR :: string
  MODULEROOT :: string
  POST_FS_DATA_SCRIPT_MAX_TIME :: int

text \<open>
  The operating system as this process sees it.
  \<open>xopen_dir p\<close> is \<open>None\<close> when the directory cannot be opened, else the entries that
  the successive \<open>xreaddir\<close> calls yield, in that order.
  \<open>faccessat_X_OK p n\<close> holds when \<open>faccessat(dirfd, n, X_OK, 0)\<close> returns \<open>0\<close> for the
  directory opened at \<open>p\<close>. \<open>access_F_OK p\<close> holds when \<open>access(p, F_OK)\<close> is not \<open>-1\<close>.
\<close>

record os =
  xopen_dir :: "string \<Rightarrow> dirent list option"
  faccessat_X_OK :: "string \<Rightarrow> string \<Rightarrow> bool"
  access_F_OK :: "string \<Rightarrow> bool"
  xfork_ret :: "nat \<Rightarrow> int"
  waitpid_ret :: "nat \<Rightarrow> int"
  clock_gettime_ret :: "nat \<Rightarrow> timespec"

text \<open>
  The state of the process: the static \<open>pfs_timeout\<close>, how many calls of each oracle it
  has made, and its trace.
\<close>

record proc =
  pfs_timeout :: timespec
  forks :: nat
  waits :: nat
  clocks :: nat
  trace :: "event list"

text \<open>A static \<open>timespec\<close> is zero-initialised.\<close>

definition proc_init :: proc where
  "proc_init = \<lparr>pfs_timeout = \<lparr>tv_sec = 0, tv_nsec = 0\<rparr>, forks = 0, waits = 0, clocks = 0,
     trace = []\<rparr>"

subsection \<open>System calls\<close>

definition emit :: "event \<Rightarrow> proc \<Rightarrow> proc" where
  "emit e s = s\<lparr>trace := trace s @ [e]\<rparr>"

definition do_xfork :: "os \<Rightarrow> proc \<Rightarrow> int \<times> proc" where
  "do_xfork sys s =
     (let r = xfork_ret sys (forks s)
      in (r, emit (Fork r) (s\<lparr>forks := Suc (forks s)\<rparr>)))"

definition do_waitpid_any :: "os \<Rightarrow> proc \<Rightarrow> int \<times> proc" where
  "do_waitpid_any sys s =
     (let r = waitpid_ret sys (waits s)
      in (r, emit (Waitpid_any r) (s\<lparr>waits := Suc (waits s)\<rparr>)))"

definition do_clock_gettime :: "os \<Rightarrow> proc \<Rightarrow> timespec \<times> proc" where
  "do_clock_gettime sys s = (clock_gettime_ret sys (clocks s), s\<lparr>clocks := Suc (clocks s)\<rparr>)"

subsection \<open>The driver\<close>

definition newline :: string where
  "newline = [CHR 0x0A]"

definition exec_script :: "string \<Rightarrow> proc \<Rightarrow> proc" where
  "exec_script script s = emit (Exec_command_sync fork_no_orphan script) s"

text \<open>
  \<open>PFS_SETUP\<close>. \<open>Inl out\<close>: the enclosing function ends with \<open>out\<close> (the \<open>return\<close>s of
  the parent and of a failed fork, the \<open>exit(0)\<close> of the timer process). \<open>Inr t\<close>: the
  function goes on with \<open>timer_pid = t\<close>.
\<close>

definition PFS_SETUP :: "os \<Rightarrow> bool \<Rightarrow> int \<Rightarrow> proc \<Rightarrow> (outcome + int) \<times> proc" where
  "PFS_SETUP sys pfs timer_pid s =
     (if pfs then
        (case do_xfork sys s of (pid, s1) \<Rightarrow>
           if pid \<noteq> 0 then
             (if pid < 0 then (Inl Return, s1)
              else (Inl Return, emit (Waitpid pid) s1))
           else
             (case do_xfork sys s1 of (timer_pid', s2) \<Rightarrow>
                if timer_pid' = 0 then (Inl (Exit 0), emit (Clock_nanosleep (pfs_timeout s2)) s2)
                else (Inr timer_pid', s2)))
      else (Inr timer_pid, s))"

definition timeout_msg :: string where
  "timeout_msg = ''* post-fs-data scripts blocking phase timeout'' @ newline"

text \<open>
  \<open>PFS_WAIT\<close>, the last statement of the loop body in both loops, so that its
  \<open>continue\<close> is the end of the iteration. The result is the new \<open>timer_pid\<close>.
\<close>

definition PFS_WAIT :: "os \<Rightarrow> bool \<Rightarrow> int \<Rightarrow> proc \<Rightarrow> int \<times> proc" where
  "PFS_WAIT sys pfs timer_pid s =
     (if pfs then
        (if timer_pid < 0 then (timer_pid, s)
         else (case do_waitpid_any sys s of (pid, s1) \<Rightarrow>
                 if pid = timer_pid then (- 1, emit (LOGW timeout_msg) s1)
                 else (timer_pid, s1)))
      else (timer_pid, s))"

definition PFS_DONE :: "bool \<Rightarrow> int \<Rightarrow> proc \<Rightarrow> outcome \<times> proc" where
  "PFS_DONE pfs timer_pid s =
     (if pfs then (Exit 0, if timer_pid > 0 then emit (Kill timer_pid) s else s)
      else (Return, s))"

text \<open>The \<open>.fork\<close> member both loops give to the launcher: \<open>pfs ? xfork : fork_dont_care\<close>.\<close>

definition script_fork :: "bool \<Rightarrow> fork_fn" where
  "script_fork pfs = (if pfs then xfork else fork_dont_care)"

text \<open>
  The \<open>for\<close> loop of \<open>exec_common_scripts\<close> over the entries \<open>xreaddir\<close> yields; \<open>path\<close>
  is the directory's path.
\<close>

fun common_loop ::
  "os \<Rightarrow> string \<Rightarrow> string \<Rightarrow> bool \<Rightarrow> int \<Rightarrow> dirent list \<Rightarrow> proc \<Rightarrow> int \<times> proc" where
  "common_loop sys stage path pfs timer_pid [] s = (timer_pid, s)"
| "common_loop sys stage path pfs timer_pid (entry # rest) s =
     (if d_type entry = DT_REG then
        (if \<not> faccessat_X_OK sys path (d_name entry) then
           common_loop sys stage path pfs timer_pid rest s
         else
           (let s1 = emit (LOGI (stage @ ''.d: exec ['' @ d_name entry @ '']'' @ newline)) s;
                s2 = emit (Exec_command (script_fork pfs) (path @ ''/'' @ d_name entry)) s1
            in case PFS_WAIT sys pfs timer_pid s2 of (timer_pid', s3) \<Rightarrow>
                 common_loop sys stage path pfs timer_pid' rest s3))
      else common_loop sys stage path pfs timer_pid rest s)"

definition exec_common_scripts :: "config \<Rightarrow> os \<Rightarrow> string \<Rightarrow> proc \<Rightarrow> outcome \<times> proc" where
  "exec_common_scripts cfg sys stage s =
     (let s1 = emit (LOGI (''* Running '' @ stage @ ''.d scripts'' @ newline)) s;
          path = SECURE_DIR cfg @ ''/'' @ stage @ ''.d''
      in case xopen_dir sys path of
           None \<Rightarrow> (Return, s1)
         | Some dir \<Rightarrow>
             (let pfs = (stage = ''post-fs-data'');
                  s2 = (if pfs then
                          (case do_clock_gettime sys s1 of (now, s') \<Rightarrow>
                             s'\<lparr>pfs_timeout :=
                                  now\<lparr>tv_sec := tv_sec now + POST_FS_DATA_SCRIPT_MAX_TIME cfg\<rparr>\<rparr>)
                        else s1)
              in case PFS_SETUP sys pfs (- 1) s2 of
                   (Inl out, s3) \<Rightarrow> (out, s3)
                 | (Inr timer_pid, s3) \<Rightarrow>
                     (case common_loop sys stage path pfs timer_pid dir s3 of
                        (timer_pid', s4) \<Rightarrow> PFS_DONE pfs timer_pid' s4)))"

text \<open>\<open>operator>\<close> on \<open>timespec\<close>.\<close>

definition timespec_gt :: "timespec \<Rightarrow> timespec \<Rightarrow> bool" where
  "timespec_gt a b =
     (if tv_sec a \<noteq> tv_sec b then tv_sec a > tv_sec b else tv_nsec a > tv_nsec b)"

definition module_script :: "config \<Rightarrow> string \<Rightarrow> string \<Rightarrow> string" where
  "module_script cfg stage module = MODULEROOT cfg @ ''/'' @ module @ ''/'' @ stage @ ''.sh''"

text \<open>The \<open>for\<close> loop of \<open>exec_module_scripts\<close> over the module list.\<close>

fun module_loop ::
  "config \<Rightarrow> os \<Rightarrow> string \<Rightarrow> bool \<Rightarrow> int \<Rightarrow> string list \<Rightarrow> proc \<Rightarrow> int \<times> proc" where
  "module_loop cfg sys stage pfs timer_pid [] s = (timer_pid, s)"
| "module_loop cfg sys stage pfs timer_pid (module # rest) s =
     (let path = module_script cfg stage module
      in if \<not> access_F_OK sys path then module_loop cfg sys stage pfs timer_pid rest s
         else
           (let s1 = emit (LOGI (module @ '': exec ['' @ stage @ ''.sh]'' @ newline)) s;
                s2 = emit (Exec_command (script_fork pfs) path) s1
            in case PFS_WAIT sys pfs timer_pid s2 of (timer_pid', s3) \<Rightarrow>
                 module_loop cfg sys stage pfs timer_pid' rest s3))"

definition exec_module_scripts ::
  "config \<Rightarrow> os \<Rightarrow> string \<Rightarrow> string list \<Rightarrow> proc \<Rightarrow> outcome \<times> proc" where
  "exec_module_scripts cfg sys stage modules s =
     (let s1 = emit (LOGI (''* Running module '' @ stage @ '' scripts'' @ newline)) s
      in if modules = [] then (Return, s1)
         else
           (case (if stage = ''post-fs-data'' then
                    (case do_clock_gettime sys s1 of (now, s') \<Rightarrow>
                       (if timespec_gt now (pfs_timeout s') then False else True, s'))
                  else (False, s1)) of
              (pfs, s2) \<Rightarrow>
                (case PFS_SETUP sys pfs (- 1) s2 of
                   (Inl out, s3) \<Rightarrow> (out, s3)
                 | (Inr timer_pid, s3) \<Rightarrow>
                     (case module_loop cfg sys stage pfs timer_pid modules s3 of
                        (timer_pid', s4) \<Rightarrow> PFS_DONE pfs timer_pid' s4))))"

subsection \<open>Reading a trace\<close>

text \<open>
  The vocabulary of the properties below. An entry is launchable when the loop of
  \<open>exec_common_scripts\<close> passes both of its tests; a module is present when the loop of
  \<open>exec_module_scripts\<close> passes its test. \<open>common_launch\<close> and \<open>module_launch\<close> are
  the log line and the launcher call of one iteration.
\<close>

definition launchable :: "os \<Rightarrow> string \<Rightarrow> dirent \<Rightarrow> bool" where
  "launchable sys path entry =
     (d_type entry = DT_REG \<and> faccessat_X_OK sys path (d_name entry))"

definition common_launch :: "string \<Rightarrow> string \<Rightarrow> fork_fn \<Rightarrow> dirent \<Rightarrow> event list" where
  "common_launch stage path f entry =
     [LOGI (stage @ ''.d: exec ['' @ d_name entry @ '']'' @ newline),
      Exec_command f (path @ ''/'' @ d_name entry)]"

definition module_present :: "config \<Rightarrow> os \<Rightarrow> string \<Rightarrow> string \<Rightarrow> bool" where
  "module_present cfg sys stage module = access_F_OK sys (module_script cfg stage module)"

definition module_launch :: "config \<Rightarrow> string \<Rightarrow> fork_fn \<Rightarrow> string \<Rightarrow> event list" where
  "module_launch cfg stage f module =
     [LOGI (module @ '': exec ['' @ stage @ ''.sh]'' @ newline),
      Exec_command f (module_script cfg stage module)]"

text \<open>The launcher calls of a trace, in order: fork function and script path.\<close>

fun launches :: "event list \<Rightarrow> (fork_fn \<times> string) list" where
  "launches [] = []"
| "launches (Exec_command f p # es) = (f, p) # launches es"
| "launches (e # es) = launches es"

fun is_wait_any :: "event \<Rightarrow> bool" where
  "is_wait_any (Waitpid_any r) = True"
| "is_wait_any e = False"

text \<open>
  \<open>quiet\<close>: a stretch of trace with no \<open>waitpid(-1, ...)\<close> and no warning line.
  \<open>single_expiry t\<close> reads a trace from left to right, \<open>t\<close> being the timer's pid: a
  \<open>waitpid(-1, ...)\<close> that returns another pid changes nothing; one that returns \<open>t\<close>
  is followed at once by the warning line, and from there on the trace is quiet; the
  warning line appears nowhere else. \<open>added s s'\<close> is what a run from \<open>s\<close> to \<open>s'\<close>
  appended to the trace.
\<close>

fun is_timeout :: "event \<Rightarrow> bool" where
  "is_timeout (LOGW m) = True"
| "is_timeout e = False"

definition quiet :: "event list \<Rightarrow> bool" where
  "quiet evs = (filter is_wait_any evs = [] \<and> filter is_timeout evs = [])"

fun single_expiry :: "int \<Rightarrow> event list \<Rightarrow> bool" where
  "single_expiry t [] = True"
| "single_expiry t (Waitpid_any r # es) =
     (if r = t then (case es of LOGW m # es' \<Rightarrow> quiet es' | _ \<Rightarrow> False)
      else single_expiry t es)"
| "single_expiry t (LOGW m # es) = False"
| "single_expiry t (e # es) = single_expiry t es"

definition added :: "proc \<Rightarrow> proc \<Rightarrow> event list" where
  "added s s' = drop (length (trace s)) (trace s')"

subsection \<open>A concrete world\<close>

definition example_config :: config where
  "example_config = \<lparr>SECURE_DIR = ''/data/adb'', MODULEROOT = ''/data/adb/modules'',
     POST_FS_DATA_SCRIPT_MAX_TIME = 35\<rparr>"

definition example_dir :: "dirent list" where
  "example_dir =
     [\<lparr>d_type = DT_REG, d_name = ''10-fast''\<rparr>,
      \<lparr>d_type = DT_DIR, d_name = ''sub''\<rparr>,
      \<lparr>d_type = DT_REG, d_name = ''notes.txt''\<rparr>,
      \<lparr>d_type = DT_REG, d_name = ''20-slow''\<rparr>]"

text \<open>
  The stage directory of \<open>post-fs-data\<close> holds \<open>example_dir\<close>, \<open>notes.txt\<close> is not
  executable, only the module \<open>alpha\<close> has a \<open>post-fs-data\<close> script. The process is the
  subtree (its first \<open>xfork\<close> returns \<open>0\<close>), its timer is process \<open>100\<close>; the first
  child it reaps is \<open>101\<close>, the second is the timer.
\<close>

definition example_os :: os where
  "example_os =
     \<lparr>xopen_dir = (\<lambda>p. if p = ''/data/adb/post-fs-data.d'' then Some example_dir else None),
      faccessat_X_OK = (\<lambda>p n. n \<noteq> ''notes.txt''),
      access_F_OK = (\<lambda>p. p = ''/data/adb/modules/alpha/post-fs-data.sh''),
      xfork_ret = (\<lambda>n. if n = 0 then 0 else 100),
      waitpid_ret = (\<lambda>n. if n = 0 then 101 else 100),
      clock_gettime_ret = (\<lambda>n. \<lparr>tv_sec = 12 + 40 * int n, tv_nsec = 500\<rparr>)\<rparr>"

text \<open>A process whose stored deadline, 47.0000005 s, is still ahead of the clock.\<close>

definition example_armed :: proc where
  "example_armed = proc_init\<lparr>pfs_timeout := \<lparr>tv_sec = 47, tv_nsec = 500\<rparr>\<rparr>"

text \<open>Variants of \<open>example_os\<close>: the timer is the first child reaped; it is never reaped.\<close>

definition os_timer_first :: os where
  "os_timer_first = example_os\<lparr>waitpid_ret := (\<lambda>n. 100)\<rparr>"

definition os_never_reaped :: os where
  "os_never_reaped = example_os\<lparr>waitpid_ret := (\<lambda>n. 101 + int n)\<rparr>"

text \<open>
  Further variants: every \<open>xfork\<close> fails; only the \<open>xfork\<close> for the timer fails; no
  stage directory can be opened.
\<close>

definition os_fork_fails :: os where
  "os_fork_fails = example_os\<lparr>xfork_ret := (\<lambda>n. - 1)\<rparr>"

definition os_timer_fork_fails :: os where
  "os_timer_fork_fails = example_os\<lparr>xfork_ret := (\<lambda>n. if n = 0 then 0 else - 1)\<rparr>"

definition os_no_dir :: os where
  "os_no_dir = example_os\<lparr>xopen_dir := (\<lambda>p. None)\<rparr>"

text \<open>
  The process that calls both phases of one \<open>post-fs-data\<close> run, followed into the
  subtree of its module phase: its first \<open>xfork\<close> (directory phase) returns the pid \<open>7\<close>
  of the directory subtree, its second (module phase) returns \<open>0\<close>, the third creates the
  timer \<open>200\<close>; the child it then reaps is \<open>201\<close>. The clock has advanced by one second
  between the two phases.
\<close>

definition os_stage_caller :: os where
  "os_stage_caller = example_os
     \<lparr>xfork_ret := (\<lambda>n. if n = 0 then 7 else if n = 1 then 0 else 200),
      waitpid_ret := (\<lambda>n. 201),
      clock_gettime_ret := (\<lambda>n. \<lparr>tv_sec = 12 + int n, tv_nsec = 500\<rparr>)\<rparr>"

section \<open>Properties\<close>

subsection \<open>The loops\<close>

lemma launches_append: "launches (xs @ ys) = launches xs @ launches ys"
  by (induction xs rule: launches.induct) auto

lemma PFS_WAIT_nonblocking:
  "\<not> pfs \<or> timer_pid < 0 \<Longrightarrow> PFS_WAIT sys pfs timer_pid s = (timer_pid, s)"
  by (auto simp: PFS_WAIT_def)

text \<open>
  Outside the timed stage, and in the timed stage once \<open>timer_pid\<close> is negative, a loop
  makes one log line and one launcher call per script it accepts, and nothing else.
\<close>

lemma common_loop_nonblocking:
  "\<not> pfs \<or> timer_pid < 0 \<Longrightarrow>
   common_loop sys stage path pfs timer_pid entries s =
     (timer_pid, s\<lparr>trace := trace s @
        concat (map (common_launch stage path (script_fork pfs))
          (filter (launchable sys path) entries))\<rparr>)"
proof (induction entries arbitrary: s)
  case Nil
  then show ?case by simp
next
  case (Cons entry rest)
  note IH = Cons.IH [OF Cons.prems]
  show ?case
    by (simp add: IH PFS_WAIT_nonblocking [OF Cons.prems] emit_def launchable_def
        common_launch_def)
qed

lemma module_loop_nonblocking:
  "\<not> pfs \<or> timer_pid < 0 \<Longrightarrow>
   module_loop cfg sys stage pfs timer_pid modules s =
     (timer_pid, s\<lparr>trace := trace s @
        concat (map (module_launch cfg stage (script_fork pfs))
          (filter (module_present cfg sys stage) modules))\<rparr>)"
proof (induction modules arbitrary: s)
  case Nil
  then show ?case by simp
next
  case (Cons module rest)
  note IH = Cons.IH [OF Cons.prems]
  show ?case
    by (simp add: IH PFS_WAIT_nonblocking [OF Cons.prems] emit_def module_present_def
        module_launch_def Let_def)
qed

text \<open>
  One iteration of each loop, in the vocabulary of the trace; then what \<open>PFS_WAIT\<close> and
  the loops do to the trace, to the launcher calls and to \<open>timer_pid\<close>.
\<close>

lemma common_loop_Cons:
  "common_loop sys stage path pfs timer_pid (entry # rest) s =
     (if launchable sys path entry then
        (case PFS_WAIT sys pfs timer_pid
                (s\<lparr>trace := trace s @ common_launch stage path (script_fork pfs) entry\<rparr>) of
           (timer_pid', s') \<Rightarrow> common_loop sys stage path pfs timer_pid' rest s')
      else common_loop sys stage path pfs timer_pid rest s)"
  by (simp add: launchable_def common_launch_def emit_def)

lemma module_loop_Cons:
  "module_loop cfg sys stage pfs timer_pid (module # rest) s =
     (if module_present cfg sys stage module then
        (case PFS_WAIT sys pfs timer_pid
                (s\<lparr>trace := trace s @ module_launch cfg stage (script_fork pfs) module\<rparr>) of
           (timer_pid', s') \<Rightarrow> module_loop cfg sys stage pfs timer_pid' rest s')
      else module_loop cfg sys stage pfs timer_pid rest s)"
  by (simp add: module_present_def module_launch_def emit_def Let_def)

lemma PFS_WAIT_launches:
  "PFS_WAIT sys pfs timer_pid s = (timer_pid', s') \<Longrightarrow> launches (trace s') = launches (trace s)"
  by (auto simp: PFS_WAIT_def do_waitpid_any_def emit_def launches_append Let_def
      split: if_splits)

lemma PFS_WAIT_trace:
  "PFS_WAIT sys pfs timer_pid s = (timer_pid', s') \<Longrightarrow> \<exists>evs. trace s' = trace s @ evs"
  by (auto simp: PFS_WAIT_def do_waitpid_any_def emit_def Let_def split: if_splits)

lemma PFS_WAIT_not_reaped:
  "0 < timer_pid \<Longrightarrow> waitpid_ret sys (waits s) \<noteq> timer_pid \<Longrightarrow>
   PFS_WAIT sys True timer_pid s =
     (timer_pid, emit (Waitpid_any (waitpid_ret sys (waits s))) (s\<lparr>waits := Suc (waits s)\<rparr>))"
  by (simp add: PFS_WAIT_def do_waitpid_any_def Let_def)

lemma common_loop_launches:
  "launches (trace (snd (common_loop sys stage path pfs timer_pid entries s))) =
     launches (trace s) @
     map (\<lambda>e. (script_fork pfs, path @ ''/'' @ d_name e)) (filter (launchable sys path) entries)"
proof (induction entries arbitrary: timer_pid s)
  case Nil
  then show ?case by simp
next
  case (Cons entry rest)
  show ?case
    by (auto simp: common_loop_Cons Cons.IH launches_append common_launch_def
        dest!: PFS_WAIT_launches simp del: common_loop.simps split: prod.splits)
qed


lemma common_loop_trace:
  "\<exists>evs. trace (snd (common_loop sys stage path pfs timer_pid entries s)) = trace s @ evs"
proof (induction entries arbitrary: timer_pid s)
  case Nil
  then show ?case by simp
next
  case (Cons entry rest)
  show ?case
  proof (cases "launchable sys path entry")
    case False
    then show ?thesis using Cons.IH by (simp add: common_loop_Cons del: common_loop.simps)
  next
    case True
    let ?s2 = "s\<lparr>trace := trace s @ common_launch stage path (script_fork pfs) entry\<rparr>"
    obtain t s3 where w: "PFS_WAIT sys pfs timer_pid ?s2 = (t, s3)" by force
    obtain e1 where e1: "trace s3 = trace ?s2 @ e1"
      using PFS_WAIT_trace [OF w] by auto
    obtain e2 where e2: "trace (snd (common_loop sys stage path pfs t rest s3)) = trace s3 @ e2"
      using Cons.IH [of t s3] by auto
    have "trace (snd (common_loop sys stage path pfs t rest s3)) =
          trace s @ (common_launch stage path (script_fork pfs) entry @ e1 @ e2)"
      using e1 e2 by simp
    then show ?thesis using True w by (simp add: common_loop_Cons del: common_loop.simps)
  qed
qed

lemma module_loop_trace:
  "\<exists>evs. trace (snd (module_loop cfg sys stage pfs timer_pid modules s)) = trace s @ evs"
proof (induction modules arbitrary: timer_pid s)
  case Nil
  then show ?case by simp
next
  case (Cons module rest)
  show ?case
  proof (cases "module_present cfg sys stage module")
    case False
    then show ?thesis using Cons.IH by (simp add: module_loop_Cons del: module_loop.simps)
  next
    case True
    let ?s2 = "s\<lparr>trace := trace s @ module_launch cfg stage (script_fork pfs) module\<rparr>"
    obtain t s3 where w: "PFS_WAIT sys pfs timer_pid ?s2 = (t, s3)" by force
    obtain e1 where e1: "trace s3 = trace ?s2 @ e1"
      using PFS_WAIT_trace [OF w] by auto
    obtain e2 where e2: "trace (snd (module_loop cfg sys stage pfs t rest s3)) = trace s3 @ e2"
      using Cons.IH [of t s3] by auto
    have "trace (snd (module_loop cfg sys stage pfs t rest s3)) =
          trace s @ (module_launch cfg stage (script_fork pfs) module @ e1 @ e2)"
      using e1 e2 by simp
    then show ?thesis using True w by (simp add: module_loop_Cons del: module_loop.simps)
  qed
qed

lemma common_loop_not_reaped:
  "0 < timer_pid \<Longrightarrow> \<forall>n\<ge>waits s. waitpid_ret sys n \<noteq> timer_pid \<Longrightarrow>
   fst (common_loop sys stage path True timer_pid entries s) = timer_pid"
proof (induction entries arbitrary: s)
  case Nil
  then show ?case by simp
next
  case (Cons entry rest)
  let ?s2 = "s\<lparr>trace := trace s @ common_launch stage path (script_fork True) entry\<rparr>"
  have "waitpid_ret sys (waits ?s2) \<noteq> timer_pid"
    using Cons.prems(2) by simp
  note w = PFS_WAIT_not_reaped [OF Cons.prems(1) this]
  have "\<forall>n\<ge>Suc (waits s). waitpid_ret sys n \<noteq> timer_pid"
    using Cons.prems(2) by simp
  then show ?case
    using Cons.IH Cons.prems
    by (simp add: common_loop_Cons w emit_def del: common_loop.simps)
qed

lemma module_loop_not_reaped:
  "0 < timer_pid \<Longrightarrow> \<forall>n\<ge>waits s. waitpid_ret sys n \<noteq> timer_pid \<Longrightarrow>
   fst (module_loop cfg sys stage True timer_pid modules s) = timer_pid"
proof (induction modules arbitrary: s)
  case Nil
  then show ?case by simp
next
  case (Cons module rest)
  let ?s2 = "s\<lparr>trace := trace s @ module_launch cfg stage (script_fork True) module\<rparr>"
  have "waitpid_ret sys (waits ?s2) \<noteq> timer_pid"
    using Cons.prems(2) by simp
  note w = PFS_WAIT_not_reaped [OF Cons.prems(1) this]
  have "\<forall>n\<ge>Suc (waits s). waitpid_ret sys n \<noteq> timer_pid"
    using Cons.prems(2) by simp
  then show ?case
    using Cons.IH Cons.prems
    by (simp add: module_loop_Cons w emit_def del: module_loop.simps)
qed

lemma common_loop_append:
  "common_loop sys stage path pfs timer_pid (xs @ ys) s =
     (case common_loop sys stage path pfs timer_pid xs s of
        (timer_pid', s') \<Rightarrow> common_loop sys stage path pfs timer_pid' ys s')"
  by (induction xs arbitrary: timer_pid s)
     (auto simp: common_loop_Cons simp del: common_loop.simps(2) split: prod.splits)

lemma module_loop_append:
  "module_loop cfg sys stage pfs timer_pid (xs @ ys) s =
     (case module_loop cfg sys stage pfs timer_pid xs s of
        (timer_pid', s') \<Rightarrow> module_loop cfg sys stage pfs timer_pid' ys s')"
  by (induction xs arbitrary: timer_pid s)
     (auto simp: module_loop_Cons simp del: module_loop.simps(2) split: prod.splits)

lemma common_launch_no_wait:
  "filter is_wait_any (concat (map (common_launch stage path f) entries)) = []"
  by (induction entries) (simp_all add: common_launch_def)

lemma module_launch_no_wait:
  "filter is_wait_any (concat (map (module_launch cfg stage f) modules)) = []"
  by (induction modules) (simp_all add: module_launch_def)

text \<open>The three ways through \<open>PFS_SETUP\<close> that the properties below use.\<close>

lemma PFS_SETUP_untimed: "PFS_SETUP sys False timer_pid s = (Inr timer_pid, s)"
  by (simp add: PFS_SETUP_def)

lemma PFS_SETUP_fork_failed:
  "xfork_ret sys (forks s) < 0 \<Longrightarrow>
   PFS_SETUP sys True timer_pid s =
     (Inl Return, emit (Fork (xfork_ret sys (forks s))) (s\<lparr>forks := Suc (forks s)\<rparr>))"
  by (simp add: PFS_SETUP_def do_xfork_def Let_def)

lemma PFS_SETUP_subtree:
  "xfork_ret sys (forks s) = 0 \<Longrightarrow> xfork_ret sys (Suc (forks s)) \<noteq> 0 \<Longrightarrow>
   PFS_SETUP sys True timer_pid s =
     (Inr (xfork_ret sys (Suc (forks s))),
      s\<lparr>forks := Suc (Suc (forks s)),
        trace := trace s @ [Fork 0, Fork (xfork_ret sys (Suc (forks s)))]\<rparr>)"
  by (simp add: PFS_SETUP_def do_xfork_def Let_def emit_def)

text \<open>
  Every run of a phase function adds a trace that \<open>single_expiry\<close> accepts, for the pid
  that its second \<open>xfork\<close> returns.
\<close>

lemma quiet_append: "quiet (xs @ ys) = (quiet xs \<and> quiet ys)"
  by (auto simp: quiet_def)

lemma quiet_single_expiry: "quiet evs \<Longrightarrow> single_expiry t evs"
  by (induction t evs rule: single_expiry.induct) (auto simp: quiet_def split: if_splits)

lemma single_expiry_quiet_prefix:
  "quiet xs \<Longrightarrow> single_expiry t (xs @ ys) = single_expiry t ys"
  by (induction t xs rule: single_expiry.induct) (auto simp: quiet_def split: if_splits)

lemma single_expiry_quiet_suffix:
  "single_expiry t xs \<Longrightarrow> quiet ys \<Longrightarrow> single_expiry t (xs @ ys)"
  by (induction t xs rule: single_expiry.induct)
     (auto simp: quiet_append quiet_single_expiry split: if_splits list.splits event.splits)

lemma quiet_common_launch:
  "quiet (concat (map (common_launch stage path f) entries))"
  by (induction entries) (simp_all add: quiet_def common_launch_def)

lemma quiet_module_launch:
  "quiet (concat (map (module_launch cfg stage f) modules))"
  by (induction modules) (simp_all add: quiet_def module_launch_def)


lemma PFS_WAIT_reaped:
  "0 \<le> timer_pid \<Longrightarrow> waitpid_ret sys (waits s) = timer_pid \<Longrightarrow>
   PFS_WAIT sys True timer_pid s =
     (- 1, s\<lparr>waits := Suc (waits s),
             trace := trace s @ [Waitpid_any timer_pid, LOGW timeout_msg]\<rparr>)"
  by (simp add: PFS_WAIT_def do_waitpid_any_def Let_def emit_def)

lemma PFS_WAIT_other:
  "0 \<le> timer_pid \<Longrightarrow> waitpid_ret sys (waits s) \<noteq> timer_pid \<Longrightarrow>
   PFS_WAIT sys True timer_pid s =
     (timer_pid, s\<lparr>waits := Suc (waits s),
                   trace := trace s @ [Waitpid_any (waitpid_ret sys (waits s))]\<rparr>)"
  by (simp add: PFS_WAIT_def do_waitpid_any_def Let_def emit_def)

lemma common_loop_single_expiry:
  "\<exists>evs. trace (snd (common_loop sys stage path pfs timer_pid entries s)) = trace s @ evs \<and>
         single_expiry timer_pid evs \<and> (\<not> pfs \<or> timer_pid < 0 \<longrightarrow> quiet evs)"
proof (cases "\<not> pfs \<or> timer_pid < 0")
  case True
  then show ?thesis
    by (simp add: common_loop_nonblocking quiet_common_launch quiet_single_expiry)
next
  case False
  then have armed: "pfs" "0 \<le> timer_pid" by simp_all
  have "\<exists>evs. trace (snd (common_loop sys stage path True timer_pid entries s)) = trace s @ evs \<and>
          single_expiry timer_pid evs"
  proof (induction entries arbitrary: s)
    case Nil
    then show ?case by simp
  next
    case (Cons entry rest)
    show ?case
    proof (cases "launchable sys path entry")
      case False
      then show ?thesis using Cons.IH by (simp add: common_loop_Cons del: common_loop.simps)
    next
      case True
      let ?L = "common_launch stage path (script_fork True) entry"
      let ?s2 = "s\<lparr>trace := trace s @ ?L\<rparr>"
      have qL: "quiet ?L" by (simp add: quiet_def common_launch_def)
      show ?thesis
      proof (cases "waitpid_ret sys (waits ?s2) = timer_pid")
        case True
        note w = PFS_WAIT_reaped [OF armed(2) True]
        let ?s3 = "?s2\<lparr>waits := Suc (waits ?s2),
                     trace := trace ?s2 @ [Waitpid_any timer_pid, LOGW timeout_msg]\<rparr>"
        let ?E = "concat (map (common_launch stage path (script_fork True))
                    (filter (launchable sys path) rest))"
        have l: "common_loop sys stage path True timer_pid (entry # rest) s =
                 (- 1, ?s3\<lparr>trace := trace ?s3 @ ?E\<rparr>)"
          using \<open>launchable sys path entry\<close>
          by (simp add: common_loop_Cons w common_loop_nonblocking del: common_loop.simps)
        have "single_expiry timer_pid (?L @ [Waitpid_any timer_pid, LOGW timeout_msg] @ ?E)"
          by (simp add: single_expiry_quiet_prefix [OF qL] quiet_common_launch)
        then show ?thesis
          unfolding l by simp
      next
        case False
        note w = PFS_WAIT_other [OF armed(2) False]
        let ?r = "waitpid_ret sys (waits ?s2)"
        let ?s3 = "?s2\<lparr>waits := Suc (waits ?s2), trace := trace ?s2 @ [Waitpid_any ?r]\<rparr>"
        obtain evs where e:
          "trace (snd (common_loop sys stage path True timer_pid rest ?s3)) = trace ?s3 @ evs"
          "single_expiry timer_pid evs"
          using Cons.IH [of ?s3] by blast
        have l: "common_loop sys stage path True timer_pid (entry # rest) s =
                 common_loop sys stage path True timer_pid rest ?s3"
          using \<open>launchable sys path entry\<close>
          by (simp add: common_loop_Cons w del: common_loop.simps)
        have "single_expiry timer_pid (?L @ Waitpid_any ?r # evs)"
          using e(2) False by (simp add: single_expiry_quiet_prefix [OF qL])
        then show ?thesis
          unfolding l using e(1) by simp
      qed
    qed
  qed
  then show ?thesis using armed by simp
qed

lemma module_loop_single_expiry:
  "\<exists>evs. trace (snd (module_loop cfg sys stage pfs timer_pid modules s)) = trace s @ evs \<and>
         single_expiry timer_pid evs \<and> (\<not> pfs \<or> timer_pid < 0 \<longrightarrow> quiet evs)"
proof (cases "\<not> pfs \<or> timer_pid < 0")
  case True
  then show ?thesis
    by (simp add: module_loop_nonblocking quiet_module_launch quiet_single_expiry)
next
  case False
  then have armed: "pfs" "0 \<le> timer_pid" by simp_all
  have "\<exists>evs. trace (snd (module_loop cfg sys stage True timer_pid modules s)) = trace s @ evs \<and>
          single_expiry timer_pid evs"
  proof (induction modules arbitrary: s)
    case Nil
    then show ?case by simp
  next
    case (Cons module rest)
    show ?case
    proof (cases "module_present cfg sys stage module")
      case False
      then show ?thesis using Cons.IH by (simp add: module_loop_Cons del: module_loop.simps)
    next
      case True
      let ?L = "module_launch cfg stage (script_fork True) module"
      let ?s2 = "s\<lparr>trace := trace s @ ?L\<rparr>"
      have qL: "quiet ?L" by (simp add: quiet_def module_launch_def)
      show ?thesis
      proof (cases "waitpid_ret sys (waits ?s2) = timer_pid")
        case True
        note w = PFS_WAIT_reaped [OF armed(2) True]
        let ?s3 = "?s2\<lparr>waits := Suc (waits ?s2),
                     trace := trace ?s2 @ [Waitpid_any timer_pid, LOGW timeout_msg]\<rparr>"
        let ?E = "concat (map (module_launch cfg stage (script_fork True))
                    (filter (module_present cfg sys stage) rest))"
        have l: "module_loop cfg sys stage True timer_pid (module # rest) s =
                 (- 1, ?s3\<lparr>trace := trace ?s3 @ ?E\<rparr>)"
          using \<open>module_present cfg sys stage module\<close>
          by (simp add: module_loop_Cons w module_loop_nonblocking del: module_loop.simps)
        have "single_expiry timer_pid (?L @ [Waitpid_any timer_pid, LOGW timeout_msg] @ ?E)"
          by (simp add: single_expiry_quiet_prefix [OF qL] quiet_module_launch)
        then show ?thesis
          unfolding l by simp
      next
        case False
        note w = PFS_WAIT_other [OF armed(2) False]
        let ?r = "waitpid_ret sys (waits ?s2)"
        let ?s3 = "?s2\<lparr>waits := Suc (waits ?s2), trace := trace ?s2 @ [Waitpid_any ?r]\<rparr>"
        obtain evs where e:
          "trace (snd (module_loop cfg sys stage True timer_pid rest ?s3)) = trace ?s3 @ evs"
          "single_expiry timer_pid evs"
          using Cons.IH [of ?s3] by blast
        have l: "module_loop cfg sys stage True timer_pid (module # rest) s =
                 module_loop cfg sys stage True timer_pid rest ?s3"
          using \<open>module_present cfg sys stage module\<close>
          by (simp add: module_loop_Cons w del: module_loop.simps)
        have "single_expiry timer_pid (?L @ Waitpid_any ?r # evs)"
          using e(2) False by (simp add: single_expiry_quiet_prefix [OF qL])
        then show ?thesis
          unfolding l using e(1) by simp
      qed
    qed
  qed
  then show ?thesis using armed by simp
qed

lemma PFS_SETUP_quiet:
  "PFS_SETUP sys pfs (- 1) s = (res, s') \<Longrightarrow> \<exists>evs. trace s' = trace s @ evs \<and> quiet evs"
  by (auto simp: PFS_SETUP_def do_xfork_def Let_def emit_def quiet_def split: if_splits)

lemma PFS_SETUP_timer:
  "PFS_SETUP sys pfs (- 1) s = (Inr t, s') \<Longrightarrow>
   t = (if pfs then xfork_ret sys (Suc (forks s)) else - 1)"
  by (auto simp: PFS_SETUP_def do_xfork_def Let_def emit_def split: if_splits)

lemma PFS_DONE_events:
  "\<exists>evs. trace (snd (PFS_DONE pfs timer_pid s)) = trace s @ evs \<and> quiet evs"
  by (simp add: PFS_DONE_def emit_def quiet_def)

lemma phase_single_expiry:
  assumes t2: "trace s2 = trace s @ [banner]" and b: "quiet [banner]"
    and su: "PFS_SETUP sys pfs (- 1) s2 = (res, s3)"
    and lp: "\<And>t. res = Inr t \<Longrightarrow>
              \<exists>evs. trace s4 = trace s3 @ evs \<and> single_expiry t evs \<and>
                    (\<not> pfs \<or> t < 0 \<longrightarrow> quiet evs)"
    and fin: "trace s5 = trace (case res of Inl out \<Rightarrow> s3 | Inr t \<Rightarrow> s4) @ K" "quiet K"
  shows "\<exists>evs. trace s5 = trace s @ evs \<and>
               single_expiry (xfork_ret sys (Suc (forks s2))) evs"
proof -
  let ?T = "xfork_ret sys (Suc (forks s2))"
  obtain P where P: "trace s3 = trace s2 @ P" "quiet P"
    using PFS_SETUP_quiet [OF su] by blast
  show ?thesis
  proof (cases res)
    case (Inl out)
    have "trace s5 = trace s @ (banner # P @ K)"
      using fin(1) P(1) t2 Inl by simp
    moreover have "quiet ([banner] @ P @ K)"
      using b P(2) fin(2) by (simp only: quiet_append)
    then have "quiet (banner # P @ K)"
      by simp
    ultimately show ?thesis
      using quiet_single_expiry by blast
  next
    case (Inr t)
    obtain E where E: "trace s4 = trace s3 @ E" "single_expiry t E"
      "\<not> pfs \<or> t < 0 \<longrightarrow> quiet E"
      using lp [OF Inr] by blast
    have t: "t = (if pfs then ?T else - 1)"
      using PFS_SETUP_timer su Inr by blast
    have "single_expiry ?T E"
    proof (cases pfs)
      case True
      then show ?thesis using E(2) t by simp
    next
      case False
      then show ?thesis using E(3) by (simp add: quiet_single_expiry)
    qed
    then have "single_expiry ?T (E @ K)"
      using fin(2) by (rule single_expiry_quiet_suffix)
    moreover have "quiet ([banner] @ P)"
      using b P(2) by (simp only: quiet_append)
    then have "quiet (banner # P)"
      by simp
    ultimately have "single_expiry ?T ((banner # P) @ E @ K)"
      by (simp only: single_expiry_quiet_prefix)
    moreover have "trace s5 = trace s @ ((banner # P) @ E @ K)"
      using fin(1) E(1) P(1) t2 Inr by simp
    ultimately show ?thesis
      by blast
  qed
qed

lemma exec_common_scripts_single_expiry:
  "\<exists>evs. trace (snd (exec_common_scripts cfg sys stage s)) = trace s @ evs \<and>
         single_expiry (xfork_ret sys (Suc (forks s))) evs"
proof (cases "xopen_dir sys (SECURE_DIR cfg @ ''/'' @ stage @ ''.d'')")
  case None
  then show ?thesis
    by (simp add: exec_common_scripts_def emit_def)
next
  case (Some dir)
  let ?path = "SECURE_DIR cfg @ ''/'' @ stage @ ''.d''"
  let ?pfs = "stage = ''post-fs-data''"
  let ?banner = "LOGI (''* Running '' @ stage @ ''.d scripts'' @ newline)"
  let ?s1 = "emit ?banner s"
  let ?s2 = "if ?pfs then
               (case do_clock_gettime sys ?s1 of (now, s') \<Rightarrow>
                  s'\<lparr>pfs_timeout :=
                       now\<lparr>tv_sec := tv_sec now + POST_FS_DATA_SCRIPT_MAX_TIME cfg\<rparr>\<rparr>)
             else ?s1"
  define s2 where "s2 = ?s2"
  have f2: "forks s2 = forks s" and t2: "trace s2 = trace s @ [?banner]"
    by (simp_all add: s2_def do_clock_gettime_def emit_def)
  obtain res s3 where su: "PFS_SETUP sys ?pfs (- 1) s2 = (res, s3)"
    by force
  define s4 where "s4 = (case res of Inl out \<Rightarrow> s3
                          | Inr t \<Rightarrow> snd (common_loop sys stage ?path ?pfs t dir s3))"
  define t' where "t' = (case res of Inl out \<Rightarrow> 0
                          | Inr t \<Rightarrow> fst (common_loop sys stage ?path ?pfs t dir s3))"
  define s5 where "s5 = (case res of Inl out \<Rightarrow> s3 | Inr t \<Rightarrow> snd (PFS_DONE ?pfs t' s4))"
  have r: "snd (exec_common_scripts cfg sys stage s) = s5"
    using su [unfolded s2_def]
    by (simp only: exec_common_scripts_def Let_def Some option.case prod.case s5_def s4_def
        t'_def split: sum.split prod.split) simp
  have lp: "\<exists>evs. trace s4 = trace s3 @ evs \<and> single_expiry t evs \<and>
                 (\<not> ?pfs \<or> t < 0 \<longrightarrow> quiet evs)" if "res = Inr t" for t
    using common_loop_single_expiry [of sys stage ?path ?pfs t dir s3] that
    by (simp add: s4_def)
  obtain K where K: "trace s5 = trace (case res of Inl out \<Rightarrow> s3 | Inr t \<Rightarrow> s4) @ K"
    "quiet K"
  proof (cases res)
    case (Inl out)
    with that [of "[]"] show ?thesis by (simp add: s5_def quiet_def)
  next
    case (Inr t)
    with that PFS_DONE_events [of ?pfs t' s4] show ?thesis by (auto simp: s5_def)
  qed
  have "quiet [?banner]" by (simp add: quiet_def)
  from phase_single_expiry [OF t2 this su lp K]
  show ?thesis unfolding r f2 by simp
qed


lemma exec_module_scripts_single_expiry:
  "\<exists>evs. trace (snd (exec_module_scripts cfg sys stage modules s)) = trace s @ evs \<and>
         single_expiry (xfork_ret sys (Suc (forks s))) evs"
proof (cases "modules = []")
  case True
  then show ?thesis
    by (simp add: exec_module_scripts_def emit_def)
next
  case False
  let ?banner = "LOGI (''* Running module '' @ stage @ '' scripts'' @ newline)"
  let ?s1 = "emit ?banner s"
  obtain pfs s2 where c: "(if stage = ''post-fs-data'' then
                    (case do_clock_gettime sys ?s1 of (now, s') \<Rightarrow>
                       (if timespec_gt now (pfs_timeout s') then False else True, s'))
                  else (False, ?s1)) = (pfs, s2)"
    by force
  have f2: "forks s2 = forks s" and t2: "trace s2 = trace s @ [?banner]"
    using c by (auto simp: do_clock_gettime_def emit_def split: if_splits)
  obtain res s3 where su: "PFS_SETUP sys pfs (- 1) s2 = (res, s3)"
    by force
  define s4 where "s4 = (case res of Inl out \<Rightarrow> s3
                          | Inr t \<Rightarrow> snd (module_loop cfg sys stage pfs t modules s3))"
  define t' where "t' = (case res of Inl out \<Rightarrow> 0
                          | Inr t \<Rightarrow> fst (module_loop cfg sys stage pfs t modules s3))"
  define s5 where "s5 = (case res of Inl out \<Rightarrow> s3 | Inr t \<Rightarrow> snd (PFS_DONE pfs t' s4))"
  have r: "snd (exec_module_scripts cfg sys stage modules s) = s5"
    using su
    by (simp only: exec_module_scripts_def Let_def False if_False c prod.case s5_def s4_def
        t'_def split: sum.split prod.split) simp
  have lp: "\<exists>evs. trace s4 = trace s3 @ evs \<and> single_expiry t evs \<and>
                 (\<not> pfs \<or> t < 0 \<longrightarrow> quiet evs)" if "res = Inr t" for t
    using module_loop_single_expiry [of cfg sys stage pfs t modules s3] that
    by (simp add: s4_def)
  obtain K where K: "trace s5 = trace (case res of Inl out \<Rightarrow> s3 | Inr t \<Rightarrow> s4) @ K"
    "quiet K"
  proof (cases res)
    case (Inl out)
    with that [of "[]"] show ?thesis by (simp add: s5_def quiet_def)
  next
    case (Inr t)
    with that PFS_DONE_events [of pfs t' s4] show ?thesis by (auto simp: s5_def)
  qed
  have "quiet [?banner]" by (simp add: quiet_def)
  from phase_single_expiry [OF t2 this su lp K]
  show ?thesis unfolding r f2 by simp
qed

lemma added_append: "trace s' = trace s @ evs \<Longrightarrow> added s s' = evs"
  by (simp add: added_def)

subsection \<open>A missing stage directory\<close>

text \<open>
  C8. When the stage directory \<open>SECURE_DIR/<stage>.d\<close> cannot be opened,
  \<open>exec_common_scripts\<close> returns to its caller having done nothing but write its first
  log line: no script is launched, no process is forked, the state is otherwise
  unchanged, and the function has no error result. This holds for every stage.
\<close>

theorem missing_stage_dir_is_empty_run:
  "xopen_dir sys (SECURE_DIR cfg @ ''/'' @ stage @ ''.d'') = None \<Longrightarrow>
   exec_common_scripts cfg sys stage s =
     (Return, emit (LOGI (''* Running '' @ stage @ ''.d scripts'' @ newline)) s)"
  by (simp add: exec_common_scripts_def)

theorem missing_stage_dir_is_empty_run_witness:
  "xopen_dir example_os (SECURE_DIR example_config @ ''/'' @ ''service'' @ ''.d'') = None \<and>
   exec_common_scripts example_config example_os ''service'' proc_init =
     (Return, emit (LOGI (''* Running '' @ ''service'' @ ''.d scripts'' @ newline)) proc_init)"
  using missing_stage_dir_is_empty_run [of example_os example_config "''service''" proc_init]
  by (simp add: example_os_def example_config_def)

subsection \<open>The module phase after the deadline\<close>

text \<open>
  C3. When \<open>exec_module_scripts\<close> runs for \<open>post-fs-data\<close> and the timestamp it takes is
  strictly greater (\<open>operator>\<close>) than the stored \<open>pfs_timeout\<close>, it behaves as in an
  untimed stage: it returns to its caller, it calls \<open>xfork\<close> not once (no subtree, no
  timer), it never calls \<open>waitpid\<close>, and its trace is its first log line followed, for
  each module whose script exists, in list order, by one log line and one launcher call
  with \<open>fork_dont_care\<close>.
\<close>

theorem module_phase_after_deadline:
  assumes "timespec_gt (clock_gettime_ret sys (clocks s)) (pfs_timeout s)"
  shows "fst (exec_module_scripts cfg sys ''post-fs-data'' modules s) = Return \<and>
         forks (snd (exec_module_scripts cfg sys ''post-fs-data'' modules s)) = forks s \<and>
         waits (snd (exec_module_scripts cfg sys ''post-fs-data'' modules s)) = waits s \<and>
         trace (snd (exec_module_scripts cfg sys ''post-fs-data'' modules s)) =
           trace s @ LOGI (''* Running module post-fs-data scripts'' @ newline) #
             concat (map (module_launch cfg ''post-fs-data'' fork_dont_care)
               (filter (module_present cfg sys ''post-fs-data'') modules))"
  using assms
  by (simp add: exec_module_scripts_def do_clock_gettime_def PFS_SETUP_untimed
      module_loop_nonblocking PFS_DONE_def emit_def script_fork_def Let_def)

theorem module_phase_after_deadline_witness:
  "timespec_gt (clock_gettime_ret example_os (clocks proc_init)) (pfs_timeout proc_init) \<and>
   fst (exec_module_scripts example_config example_os ''post-fs-data'' [''alpha'', ''beta'']
          proc_init) = Return \<and>
   forks (snd (exec_module_scripts example_config example_os ''post-fs-data''
          [''alpha'', ''beta''] proc_init)) = 0 \<and>
   waits (snd (exec_module_scripts example_config example_os ''post-fs-data''
          [''alpha'', ''beta''] proc_init)) = 0 \<and>
   trace (snd (exec_module_scripts example_config example_os ''post-fs-data''
          [''alpha'', ''beta''] proc_init)) =
     [LOGI (''* Running module post-fs-data scripts'' @ newline),
      LOGI (''alpha: exec [post-fs-data.sh]'' @ newline),
      Exec_command fork_dont_care ''/data/adb/modules/alpha/post-fs-data.sh'']"
  using module_phase_after_deadline [of example_os proc_init example_config "[''alpha'', ''beta'']"]
  by (simp add: example_os_def proc_init_def timespec_gt_def example_config_def
      module_present_def module_launch_def module_script_def)

subsection \<open>Fork failures\<close>

text \<open>
  C10. When the first \<open>xfork\<close> of \<open>PFS_SETUP\<close> fails (a negative result), the phase
  function returns to its caller at once: the trace holds the first log line and the
  failed fork, and no launcher call. This is so for \<open>exec_common_scripts\<close> whenever the
  stage directory opens, and for \<open>exec_module_scripts\<close> whenever it reaches \<open>PFS_SETUP\<close>
  in timed mode (a module list that is not empty, a deadline not yet passed).
\<close>

theorem subtree_fork_failure_skips_phase:
  assumes "xfork_ret sys (forks s) < 0"
  shows "(xopen_dir sys (SECURE_DIR cfg @ ''/'' @ ''post-fs-data'' @ ''.d'') \<noteq> None \<longrightarrow>
            fst (exec_common_scripts cfg sys ''post-fs-data'' s) = Return \<and>
            trace (snd (exec_common_scripts cfg sys ''post-fs-data'' s)) =
              trace s @ [LOGI (''* Running post-fs-data.d scripts'' @ newline),
                         Fork (xfork_ret sys (forks s))]) \<and>
         (modules \<noteq> [] \<and>
          \<not> timespec_gt (clock_gettime_ret sys (clocks s)) (pfs_timeout s) \<longrightarrow>
            fst (exec_module_scripts cfg sys ''post-fs-data'' modules s) = Return \<and>
            trace (snd (exec_module_scripts cfg sys ''post-fs-data'' modules s)) =
              trace s @ [LOGI (''* Running module post-fs-data scripts'' @ newline),
                         Fork (xfork_ret sys (forks s))])"
proof (intro conjI impI)
  assume "xopen_dir sys (SECURE_DIR cfg @ ''/'' @ ''post-fs-data'' @ ''.d'') \<noteq> None"
  then obtain dir where d: "xopen_dir sys (SECURE_DIR cfg @ ''/'' @ ''post-fs-data'' @ ''.d'') = Some dir"
    by auto
  have r: "exec_common_scripts cfg sys ''post-fs-data'' s =
     (Return, s\<lparr>pfs_timeout := (clock_gettime_ret sys (clocks s))
                  \<lparr>tv_sec := tv_sec (clock_gettime_ret sys (clocks s)) +
                             POST_FS_DATA_SCRIPT_MAX_TIME cfg\<rparr>,
                forks := Suc (forks s), clocks := Suc (clocks s),
                trace := trace s @ [LOGI (''* Running post-fs-data.d scripts'' @ newline),
                                    Fork (xfork_ret sys (forks s))]\<rparr>)"
    using d assms
    by (simp add: exec_common_scripts_def Let_def do_clock_gettime_def emit_def
        PFS_SETUP_fork_failed)
  show "fst (exec_common_scripts cfg sys ''post-fs-data'' s) = Return"
    by (simp add: r)
  show "trace (snd (exec_common_scripts cfg sys ''post-fs-data'' s)) =
          trace s @ [LOGI (''* Running post-fs-data.d scripts'' @ newline),
                     Fork (xfork_ret sys (forks s))]"
    by (simp add: r)
next
  assume a: "modules \<noteq> [] \<and>
             \<not> timespec_gt (clock_gettime_ret sys (clocks s)) (pfs_timeout s)"
  have r: "exec_module_scripts cfg sys ''post-fs-data'' modules s =
     (Return, s\<lparr>forks := Suc (forks s), clocks := Suc (clocks s),
                trace := trace s @ [LOGI (''* Running module post-fs-data scripts'' @ newline),
                                    Fork (xfork_ret sys (forks s))]\<rparr>)"
    using a assms
    by (simp add: exec_module_scripts_def Let_def do_clock_gettime_def emit_def
        PFS_SETUP_fork_failed)
  show "fst (exec_module_scripts cfg sys ''post-fs-data'' modules s) = Return"
    by (simp add: r)
  show "trace (snd (exec_module_scripts cfg sys ''post-fs-data'' modules s)) =
          trace s @ [LOGI (''* Running module post-fs-data scripts'' @ newline),
                     Fork (xfork_ret sys (forks s))]"
    by (simp add: r)
qed

theorem subtree_fork_failure_skips_phase_witness:
  "xfork_ret os_fork_fails (forks example_armed) < 0 \<and>
   xopen_dir os_fork_fails (SECURE_DIR example_config @ ''/'' @ ''post-fs-data'' @ ''.d'') \<noteq>
     None \<and>
   [''alpha'', ''beta''] \<noteq> [] \<and>
   \<not> timespec_gt (clock_gettime_ret os_fork_fails
        (clocks example_armed)) (pfs_timeout example_armed) \<and>
   fst (exec_common_scripts example_config os_fork_fails ''post-fs-data'' example_armed) = Return \<and>
   trace (snd (exec_common_scripts example_config os_fork_fails ''post-fs-data'' example_armed)) =
     [LOGI (''* Running post-fs-data.d scripts'' @ newline), Fork (- 1)] \<and>
   fst (exec_module_scripts example_config os_fork_fails ''post-fs-data'' [''alpha'', ''beta'']
          example_armed) = Return \<and>
   trace (snd (exec_module_scripts example_config os_fork_fails ''post-fs-data''
          [''alpha'', ''beta''] example_armed)) =
     [LOGI (''* Running module post-fs-data scripts'' @ newline), Fork (- 1)]"
  using subtree_fork_failure_skips_phase
    [of os_fork_fails example_armed example_config "[''alpha'', ''beta'']"]
  by (simp add: os_fork_fails_def example_os_def example_armed_def proc_init_def
      example_config_def timespec_gt_def)

text \<open>
  C4, as the specification states it for the whole stage, fails: a failed timer fork
  makes only the phase in which it happens run as expired. Here the timer fork of the
  directory phase fails and that phase never waits; the deadline, 47 s, is stored all
  the same; the module phase of the same run starts at 13 s, forks a timer of its own
  and blocks in \<open>waitpid(-1, ...)\<close>.
\<close>

theorem timer_fork_failure_module_phase_waits_counterexample:
  "trace (snd (exec_common_scripts example_config os_timer_fork_fails ''post-fs-data''
      proc_init)) =
     [LOGI (''* Running post-fs-data.d scripts'' @ newline),
      Fork 0, Fork (- 1),
      LOGI (''post-fs-data.d: exec [10-fast]'' @ newline),
      Exec_command xfork ''/data/adb/post-fs-data.d/10-fast'',
      LOGI (''post-fs-data.d: exec [20-slow]'' @ newline),
      Exec_command xfork ''/data/adb/post-fs-data.d/20-slow''] \<and>
   pfs_timeout (snd (exec_common_scripts example_config os_stage_caller ''post-fs-data''
      proc_init)) = \<lparr>tv_sec = 47, tv_nsec = 500\<rparr> \<and>
   filter is_wait_any (trace (snd (exec_module_scripts example_config os_stage_caller
      ''post-fs-data'' [''alpha'', ''beta'']
      (snd (exec_common_scripts example_config os_stage_caller ''post-fs-data'' proc_init))))) =
     [Waitpid_any 201]"
  by (simp add: exec_common_scripts_def exec_module_scripts_def Let_def example_config_def
      os_timer_fork_fails_def os_stage_caller_def example_os_def example_dir_def proc_init_def
      do_clock_gettime_def PFS_SETUP_def do_xfork_def PFS_WAIT_def do_waitpid_any_def
      PFS_DONE_def emit_def script_fork_def timespec_gt_def module_script_def)

text \<open>
  C4, amended to one call of a phase function. In the subtree process (the first
  \<open>xfork\<close> returned \<open>0\<close>), when the \<open>xfork\<close> that should create the timer fails,
  \<open>timer_pid\<close> is negative from the start: in that call the process launches every
  script the loop accepts, in order, never calls \<open>waitpid(-1, ...)\<close>, and ends with
  \<open>exit(0)\<close>. This is so for both phase functions.
\<close>

theorem timer_fork_failure_runs_expired:
  assumes "xfork_ret sys (forks s) = 0" and "xfork_ret sys (Suc (forks s)) < 0"
  shows "(\<forall>dir. xopen_dir sys (SECURE_DIR cfg @ ''/'' @ ''post-fs-data'' @ ''.d'') = Some dir \<longrightarrow>
            fst (exec_common_scripts cfg sys ''post-fs-data'' s) = Exit 0 \<and>
            waits (snd (exec_common_scripts cfg sys ''post-fs-data'' s)) = waits s \<and>
            trace (snd (exec_common_scripts cfg sys ''post-fs-data'' s)) =
              trace s @ [LOGI (''* Running post-fs-data.d scripts'' @ newline),
                         Fork 0, Fork (xfork_ret sys (Suc (forks s)))] @
              concat (map (common_launch ''post-fs-data''
                             (SECURE_DIR cfg @ ''/'' @ ''post-fs-data'' @ ''.d'') xfork)
                (filter (launchable sys (SECURE_DIR cfg @ ''/'' @ ''post-fs-data'' @ ''.d''))
                   dir))) \<and>
         (modules \<noteq> [] \<and>
          \<not> timespec_gt (clock_gettime_ret sys (clocks s)) (pfs_timeout s) \<longrightarrow>
            fst (exec_module_scripts cfg sys ''post-fs-data'' modules s) = Exit 0 \<and>
            waits (snd (exec_module_scripts cfg sys ''post-fs-data'' modules s)) = waits s \<and>
            trace (snd (exec_module_scripts cfg sys ''post-fs-data'' modules s)) =
              trace s @ [LOGI (''* Running module post-fs-data scripts'' @ newline),
                         Fork 0, Fork (xfork_ret sys (Suc (forks s)))] @
              concat (map (module_launch cfg ''post-fs-data'' xfork)
                (filter (module_present cfg sys ''post-fs-data'') modules)))"
proof (intro conjI allI impI)
  fix dir
  assume d: "xopen_dir sys (SECURE_DIR cfg @ ''/'' @ ''post-fs-data'' @ ''.d'') = Some dir"
  let ?t = "xfork_ret sys (Suc (forks s))"
  let ?path = "SECURE_DIR cfg @ ''/'' @ ''post-fs-data'' @ ''.d''"
  have r: "exec_common_scripts cfg sys ''post-fs-data'' s =
     (Exit 0, s\<lparr>pfs_timeout := (clock_gettime_ret sys (clocks s))
                  \<lparr>tv_sec := tv_sec (clock_gettime_ret sys (clocks s)) +
                             POST_FS_DATA_SCRIPT_MAX_TIME cfg\<rparr>,
                forks := Suc (Suc (forks s)), clocks := Suc (clocks s),
                trace := trace s @ [LOGI (''* Running post-fs-data.d scripts'' @ newline),
                                    Fork 0, Fork ?t] @
                  concat (map (common_launch ''post-fs-data'' ?path xfork)
                    (filter (launchable sys ?path) dir))\<rparr>)"
    using d assms
    by (simp add: exec_common_scripts_def Let_def do_clock_gettime_def emit_def
        PFS_SETUP_subtree common_loop_nonblocking PFS_DONE_def script_fork_def)
  show "fst (exec_common_scripts cfg sys ''post-fs-data'' s) = Exit 0"
    by (simp add: r)
  show "waits (snd (exec_common_scripts cfg sys ''post-fs-data'' s)) = waits s"
    by (simp add: r)
  show "trace (snd (exec_common_scripts cfg sys ''post-fs-data'' s)) =
          trace s @ [LOGI (''* Running post-fs-data.d scripts'' @ newline), Fork 0, Fork ?t] @
          concat (map (common_launch ''post-fs-data'' ?path xfork)
            (filter (launchable sys ?path) dir))"
    by (simp add: r)
next
  assume a: "modules \<noteq> [] \<and>
             \<not> timespec_gt (clock_gettime_ret sys (clocks s)) (pfs_timeout s)"
  let ?t = "xfork_ret sys (Suc (forks s))"
  have r: "exec_module_scripts cfg sys ''post-fs-data'' modules s =
     (Exit 0, s\<lparr>forks := Suc (Suc (forks s)), clocks := Suc (clocks s),
                trace := trace s @ [LOGI (''* Running module post-fs-data scripts'' @ newline),
                                    Fork 0, Fork ?t] @
                  concat (map (module_launch cfg ''post-fs-data'' xfork)
                    (filter (module_present cfg sys ''post-fs-data'') modules))\<rparr>)"
    using a assms
    by (simp add: exec_module_scripts_def Let_def do_clock_gettime_def emit_def
        PFS_SETUP_subtree module_loop_nonblocking PFS_DONE_def script_fork_def)
  show "fst (exec_module_scripts cfg sys ''post-fs-data'' modules s) = Exit 0"
    by (simp add: r)
  show "waits (snd (exec_module_scripts cfg sys ''post-fs-data'' modules s)) = waits s"
    by (simp add: r)
  show "trace (snd (exec_module_scripts cfg sys ''post-fs-data'' modules s)) =
          trace s @ [LOGI (''* Running module post-fs-data scripts'' @ newline),
                     Fork 0, Fork ?t] @
          concat (map (module_launch cfg ''post-fs-data'' xfork)
            (filter (module_present cfg sys ''post-fs-data'') modules))"
    by (simp add: r)
qed

theorem timer_fork_failure_runs_expired_witness:
  "xfork_ret os_timer_fork_fails (forks example_armed) = 0 \<and>
   xfork_ret os_timer_fork_fails (Suc (forks example_armed)) < 0 \<and>
   xopen_dir os_timer_fork_fails (SECURE_DIR example_config @ ''/'' @ ''post-fs-data'' @ ''.d'') =
     Some example_dir \<and>
   [''alpha'', ''beta''] \<noteq> [] \<and>
   \<not> timespec_gt (clock_gettime_ret os_timer_fork_fails (clocks example_armed))
       (pfs_timeout example_armed) \<and>
   fst (exec_common_scripts example_config os_timer_fork_fails ''post-fs-data''
          example_armed) = Exit 0 \<and>
   waits (snd (exec_common_scripts example_config os_timer_fork_fails ''post-fs-data''
          example_armed)) = 0 \<and>
   trace (snd (exec_common_scripts example_config os_timer_fork_fails ''post-fs-data''
          example_armed)) =
     [LOGI (''* Running post-fs-data.d scripts'' @ newline), Fork 0, Fork (- 1),
      LOGI (''post-fs-data.d: exec [10-fast]'' @ newline),
      Exec_command xfork ''/data/adb/post-fs-data.d/10-fast'',
      LOGI (''post-fs-data.d: exec [20-slow]'' @ newline),
      Exec_command xfork ''/data/adb/post-fs-data.d/20-slow''] \<and>
   fst (exec_module_scripts example_config os_timer_fork_fails ''post-fs-data''
          [''alpha'', ''beta''] example_armed) = Exit 0 \<and>
   waits (snd (exec_module_scripts example_config os_timer_fork_fails ''post-fs-data''
          [''alpha'', ''beta''] example_armed)) = 0 \<and>
   trace (snd (exec_module_scripts example_config os_timer_fork_fails ''post-fs-data''
          [''alpha'', ''beta''] example_armed)) =
     [LOGI (''* Running module post-fs-data scripts'' @ newline), Fork 0, Fork (- 1),
      LOGI (''alpha: exec [post-fs-data.sh]'' @ newline),
      Exec_command xfork ''/data/adb/modules/alpha/post-fs-data.sh'']"
  using timer_fork_failure_runs_expired
    [of os_timer_fork_fails example_armed example_config "[''alpha'', ''beta'']"]
  by (simp add: os_timer_fork_fails_def example_os_def example_armed_def proc_init_def
      example_config_def timespec_gt_def example_dir_def launchable_def common_launch_def module_present_def
      module_launch_def module_script_def)

subsection \<open>A missing stage directory and the module phase\<close>

text \<open>
  C9. Let \<open>pfs_timeout\<close> still be zero, as it is initialised, and let the directory
  \<open>SECURE_DIR/post-fs-data.d\<close> fail to open. Then \<open>exec_common_scripts\<close> returns before
  it computes the deadline, so \<open>pfs_timeout\<close> is still zero afterwards. A following
  \<open>exec_module_scripts\<close> for \<open>post-fs-data\<close>, reading a monotonic clock that is past
  zero, finds the deadline passed: it returns to its caller without a single \<open>xfork\<close>
  or \<open>waitpid\<close> of its own, and launches each present module script with
  \<open>fork_dont_care\<close>.
\<close>

theorem missing_dir_leaves_deadline_zero:
  assumes "xopen_dir sys (SECURE_DIR cfg @ ''/'' @ ''post-fs-data'' @ ''.d'') = None"
    and "pfs_timeout s = \<lparr>tv_sec = 0, tv_nsec = 0\<rparr>"
    and "timespec_gt (clock_gettime_ret sys (clocks s)) \<lparr>tv_sec = 0, tv_nsec = 0\<rparr>"
  shows "fst (exec_common_scripts cfg sys ''post-fs-data'' s) = Return \<and>
         pfs_timeout (snd (exec_common_scripts cfg sys ''post-fs-data'' s)) =
           \<lparr>tv_sec = 0, tv_nsec = 0\<rparr> \<and>
         fst (exec_module_scripts cfg sys ''post-fs-data'' modules
                (snd (exec_common_scripts cfg sys ''post-fs-data'' s))) = Return \<and>
         forks (snd (exec_module_scripts cfg sys ''post-fs-data'' modules
                (snd (exec_common_scripts cfg sys ''post-fs-data'' s)))) = forks s \<and>
         waits (snd (exec_module_scripts cfg sys ''post-fs-data'' modules
                (snd (exec_common_scripts cfg sys ''post-fs-data'' s)))) = waits s \<and>
         trace (snd (exec_module_scripts cfg sys ''post-fs-data'' modules
                (snd (exec_common_scripts cfg sys ''post-fs-data'' s)))) =
           trace s @ LOGI (''* Running post-fs-data.d scripts'' @ newline) #
             LOGI (''* Running module post-fs-data scripts'' @ newline) #
             concat (map (module_launch cfg ''post-fs-data'' fork_dont_care)
               (filter (module_present cfg sys ''post-fs-data'') modules))"
proof -
  let ?s1 = "emit (LOGI (''* Running post-fs-data.d scripts'' @ newline)) s"
  have c: "exec_common_scripts cfg sys ''post-fs-data'' s = (Return, ?s1)"
    using assms(1) by (simp add: exec_common_scripts_def)
  have g: "timespec_gt (clock_gettime_ret sys (clocks ?s1)) (pfs_timeout ?s1)"
    using assms(2,3) by (simp add: emit_def)
  have m: "exec_module_scripts cfg sys ''post-fs-data'' modules ?s1 =
     (Return, ?s1\<lparr>clocks := (if modules = [] then clocks s else Suc (clocks s)),
        trace := trace ?s1 @ LOGI (''* Running module post-fs-data scripts'' @ newline) #
          concat (map (module_launch cfg ''post-fs-data'' fork_dont_care)
            (filter (module_present cfg sys ''post-fs-data'') modules))\<rparr>)"
    using g
    by (simp add: exec_module_scripts_def do_clock_gettime_def PFS_SETUP_untimed
        module_loop_nonblocking PFS_DONE_def emit_def script_fork_def Let_def)
  show ?thesis
    unfolding c snd_conv fst_conv m using assms(2) by (simp add: emit_def)
qed

theorem missing_dir_leaves_deadline_zero_witness:
  "xopen_dir os_no_dir (SECURE_DIR example_config @ ''/'' @ ''post-fs-data'' @ ''.d'') = None \<and>
   pfs_timeout proc_init = \<lparr>tv_sec = 0, tv_nsec = 0\<rparr> \<and>
   timespec_gt (clock_gettime_ret os_no_dir (clocks proc_init))
     \<lparr>tv_sec = 0, tv_nsec = 0\<rparr> \<and>
   fst (exec_module_scripts example_config os_no_dir ''post-fs-data'' [''alpha'', ''beta'']
          (snd (exec_common_scripts example_config os_no_dir ''post-fs-data'' proc_init))) =
     Return \<and>
   trace (snd (exec_module_scripts example_config os_no_dir ''post-fs-data'' [''alpha'', ''beta'']
          (snd (exec_common_scripts example_config os_no_dir ''post-fs-data'' proc_init)))) =
     [LOGI (''* Running post-fs-data.d scripts'' @ newline),
      LOGI (''* Running module post-fs-data scripts'' @ newline),
      LOGI (''alpha: exec [post-fs-data.sh]'' @ newline),
      Exec_command fork_dont_care ''/data/adb/modules/alpha/post-fs-data.sh'']"
  using missing_dir_leaves_deadline_zero
    [of os_no_dir example_config proc_init "[''alpha'', ''beta'']"]
  by (simp add: os_no_dir_def example_os_def proc_init_def example_config_def
      timespec_gt_def module_present_def module_launch_def module_script_def)

subsection \<open>The timer that did not fire\<close>

text \<open>
  C5. In the subtree process of a timed phase (the first \<open>xfork\<close> returned \<open>0\<close>, the
  second the positive pid of the timer), when no \<open>waitpid(-1, ...)\<close> of the phase
  returns the timer's pid, \<open>timer_pid\<close> is still positive after the loop: the last thing
  the process does is \<open>kill(timer_pid, SIGKILL)\<close>, and it ends with \<open>exit(0)\<close>. This
  is so for both phase functions.
\<close>

theorem unfired_timer_is_killed:
  assumes "xfork_ret sys (forks s) = 0" and "0 < xfork_ret sys (Suc (forks s))"
    and "\<forall>n\<ge>waits s. waitpid_ret sys n \<noteq> xfork_ret sys (Suc (forks s))"
  shows "(xopen_dir sys (SECURE_DIR cfg @ ''/'' @ ''post-fs-data'' @ ''.d'') \<noteq> None \<longrightarrow>
            fst (exec_common_scripts cfg sys ''post-fs-data'' s) = Exit 0 \<and>
            (\<exists>evs. trace (snd (exec_common_scripts cfg sys ''post-fs-data'' s)) =
               trace s @ evs @ [Kill (xfork_ret sys (Suc (forks s)))])) \<and>
         (modules \<noteq> [] \<and>
          \<not> timespec_gt (clock_gettime_ret sys (clocks s)) (pfs_timeout s) \<longrightarrow>
            fst (exec_module_scripts cfg sys ''post-fs-data'' modules s) = Exit 0 \<and>
            (\<exists>evs. trace (snd (exec_module_scripts cfg sys ''post-fs-data'' modules s)) =
               trace s @ evs @ [Kill (xfork_ret sys (Suc (forks s)))]))"
proof (intro conjI impI)
  let ?t = "xfork_ret sys (Suc (forks s))"
  let ?path = "SECURE_DIR cfg @ ''/'' @ ''post-fs-data'' @ ''.d''"
  assume "xopen_dir sys ?path \<noteq> None"
  then obtain dir where d: "xopen_dir sys ?path = Some dir" by auto
  define s3 where "s3 = s\<lparr>clocks := Suc (clocks s),
                pfs_timeout := (clock_gettime_ret sys (clocks s))
                  \<lparr>tv_sec := tv_sec (clock_gettime_ret sys (clocks s)) +
                             POST_FS_DATA_SCRIPT_MAX_TIME cfg\<rparr>,
                forks := Suc (Suc (forks s)),
                trace := trace s @ [LOGI (''* Running post-fs-data.d scripts'' @ newline),
                                    Fork 0, Fork ?t]\<rparr>"
  have r: "exec_common_scripts cfg sys ''post-fs-data'' s =
     (case common_loop sys ''post-fs-data'' ?path True ?t dir s3 of
        (timer_pid', s4) \<Rightarrow> PFS_DONE True timer_pid' s4)"
    using d assms(1,2)
    by (simp add: exec_common_scripts_def Let_def do_clock_gettime_def emit_def
        PFS_SETUP_subtree s3_def)
  have "\<forall>n\<ge>waits s3. waitpid_ret sys n \<noteq> ?t"
    using assms(3) by (simp add: s3_def)
  then have k: "fst (common_loop sys ''post-fs-data'' ?path True ?t dir s3) = ?t"
    using assms(2) by (rule common_loop_not_reaped [rotated])
  obtain evs where e:
    "trace (snd (common_loop sys ''post-fs-data'' ?path True ?t dir s3)) = trace s3 @ evs"
    using common_loop_trace by blast
  obtain t' s4 where l: "common_loop sys ''post-fs-data'' ?path True ?t dir s3 = (t', s4)"
    by force
  have t': "t' = ?t" and s4: "trace s4 = trace s3 @ evs"
    using k e l by simp_all
  have s3: "trace s3 = trace s @ [LOGI (''* Running post-fs-data.d scripts'' @ newline), Fork 0, Fork ?t]"
    by (simp add: s3_def)
  have fin: "exec_common_scripts cfg sys ''post-fs-data'' s = (Exit 0, emit (Kill ?t) s4)"
    unfolding r l using t' assms(2) by (simp add: PFS_DONE_def)
  show "fst (exec_common_scripts cfg sys ''post-fs-data'' s) = Exit 0"
    by (simp add: fin)
  have "trace (snd (exec_common_scripts cfg sys ''post-fs-data'' s)) =
        trace s @ ([LOGI (''* Running post-fs-data.d scripts'' @ newline), Fork 0, Fork ?t] @ evs) @ [Kill ?t]"
    unfolding fin snd_conv emit_def using s4 s3 by simp
  then show "\<exists>evs. trace (snd (exec_common_scripts cfg sys ''post-fs-data'' s)) =
               trace s @ evs @ [Kill ?t]"
    by blast
next
  let ?t = "xfork_ret sys (Suc (forks s))"
  assume a: "modules \<noteq> [] \<and>
             \<not> timespec_gt (clock_gettime_ret sys (clocks s)) (pfs_timeout s)"
  define s3 where "s3 = s\<lparr>clocks := Suc (clocks s), forks := Suc (Suc (forks s)),
                trace := trace s @ [LOGI (''* Running module post-fs-data scripts'' @ newline),
                                    Fork 0, Fork ?t]\<rparr>"
  have r: "exec_module_scripts cfg sys ''post-fs-data'' modules s =
     (case module_loop cfg sys ''post-fs-data'' True ?t modules s3 of
        (timer_pid', s4) \<Rightarrow> PFS_DONE True timer_pid' s4)"
    using a assms(1,2)
    by (simp add: exec_module_scripts_def Let_def do_clock_gettime_def emit_def
        PFS_SETUP_subtree s3_def)
  have "\<forall>n\<ge>waits s3. waitpid_ret sys n \<noteq> ?t"
    using assms(3) by (simp add: s3_def)
  then have k: "fst (module_loop cfg sys ''post-fs-data'' True ?t modules s3) = ?t"
    using assms(2) by (rule module_loop_not_reaped [rotated])
  obtain evs where e:
    "trace (snd (module_loop cfg sys ''post-fs-data'' True ?t modules s3)) = trace s3 @ evs"
    using module_loop_trace by blast
  obtain t' s4 where l: "module_loop cfg sys ''post-fs-data'' True ?t modules s3 = (t', s4)"
    by force
  have t': "t' = ?t" and s4: "trace s4 = trace s3 @ evs"
    using k e l by simp_all
  have s3: "trace s3 = trace s @ [LOGI (''* Running module post-fs-data scripts'' @ newline), Fork 0, Fork ?t]"
    by (simp add: s3_def)
  have fin: "exec_module_scripts cfg sys ''post-fs-data'' modules s = (Exit 0, emit (Kill ?t) s4)"
    unfolding r l using t' assms(2) by (simp add: PFS_DONE_def)
  show "fst (exec_module_scripts cfg sys ''post-fs-data'' modules s) = Exit 0"
    by (simp add: fin)
  have "trace (snd (exec_module_scripts cfg sys ''post-fs-data'' modules s)) =
        trace s @ ([LOGI (''* Running module post-fs-data scripts'' @ newline), Fork 0, Fork ?t] @ evs) @ [Kill ?t]"
    unfolding fin snd_conv emit_def using s4 s3 by simp
  then show "\<exists>evs. trace (snd (exec_module_scripts cfg sys ''post-fs-data'' modules s)) =
               trace s @ evs @ [Kill ?t]"
    by blast
qed

theorem unfired_timer_is_killed_witness:
  "xfork_ret os_never_reaped (forks example_armed) = 0 \<and>
   0 < xfork_ret os_never_reaped (Suc (forks example_armed)) \<and>
   xopen_dir os_never_reaped (SECURE_DIR example_config @ ''/'' @ ''post-fs-data'' @ ''.d'')
     \<noteq> None \<and>
   [''alpha'', ''beta''] \<noteq> [] \<and>
   \<not> timespec_gt (clock_gettime_ret os_never_reaped (clocks example_armed))
       (pfs_timeout example_armed) \<and>
   fst (exec_common_scripts example_config os_never_reaped ''post-fs-data'' example_armed) =
     Exit 0 \<and>
   (\<exists>evs. trace (snd (exec_common_scripts example_config os_never_reaped ''post-fs-data''
             example_armed)) = evs @ [Kill 100]) \<and>
   fst (exec_module_scripts example_config os_never_reaped ''post-fs-data'' [''alpha'', ''beta'']
          example_armed) = Exit 0 \<and>
   (\<exists>evs. trace (snd (exec_module_scripts example_config os_never_reaped ''post-fs-data''
             [''alpha'', ''beta''] example_armed)) = evs @ [Kill 100])"
  using unfired_timer_is_killed
    [of os_never_reaped example_armed example_config "[''alpha'', ''beta'']"]
  by (simp add: os_never_reaped_def example_os_def example_armed_def proc_init_def
      example_config_def timespec_gt_def)

subsection \<open>Which scripts are launched, and in which order\<close>

text \<open>
  C6. In the process that runs the loop of \<open>exec_common_scripts\<close> (any process in an
  untimed stage, the subtree process in \<open>post-fs-data\<close>), with the stage directory
  open, the launcher calls added to the trace are exactly the paths of the entries
  whose \<open>d_type\<close> is \<open>DT_REG\<close> and for which \<open>faccessat(..., X_OK, 0)\<close> returns \<open>0\<close>, in
  the order in which \<open>xreaddir\<close> yields them; every other entry is skipped.
\<close>

theorem common_scripts_launch_order:
  assumes "xopen_dir sys (SECURE_DIR cfg @ ''/'' @ stage @ ''.d'') = Some dir"
    and "stage = ''post-fs-data'' \<longrightarrow>
           xfork_ret sys (forks s) = 0 \<and> xfork_ret sys (Suc (forks s)) \<noteq> 0"
  shows "map snd (launches (trace (snd (exec_common_scripts cfg sys stage s)))) =
           map snd (launches (trace s)) @
           map (\<lambda>entry. (SECURE_DIR cfg @ ''/'' @ stage @ ''.d'') @ ''/'' @ d_name entry)
             (filter (\<lambda>entry. d_type entry = DT_REG \<and>
                  faccessat_X_OK sys (SECURE_DIR cfg @ ''/'' @ stage @ ''.d'') (d_name entry))
                dir)"
proof -
  let ?path = "SECURE_DIR cfg @ ''/'' @ stage @ ''.d''"
  let ?pfs = "stage = ''post-fs-data''"
  let ?s1 = "emit (LOGI (''* Running '' @ stage @ ''.d scripts'' @ newline)) s"
  let ?s2 = "if ?pfs then
               (case do_clock_gettime sys ?s1 of (now, s') \<Rightarrow>
                  s'\<lparr>pfs_timeout :=
                       now\<lparr>tv_sec := tv_sec now + POST_FS_DATA_SCRIPT_MAX_TIME cfg\<rparr>\<rparr>)
             else ?s1"
  have f2: "forks ?s2 = forks s" and t2: "launches (trace ?s2) = launches (trace s)"
    by (simp_all add: do_clock_gettime_def emit_def launches_append)
  obtain t s3 where su: "PFS_SETUP sys ?pfs (- 1) ?s2 = (Inr t, s3)"
    and t3: "launches (trace s3) = launches (trace ?s2)"
  proof (cases ?pfs)
    case True
    then have "xfork_ret sys (forks ?s2) = 0" "xfork_ret sys (Suc (forks ?s2)) \<noteq> 0"
      using assms(2) f2 by simp_all
    from PFS_SETUP_subtree [OF this, of "- 1"] True that show ?thesis
      by (simp add: launches_append)
  next
    case False
    with that show ?thesis by (simp add: PFS_SETUP_untimed)
  qed
  obtain t' s4 where l: "common_loop sys stage ?path ?pfs t dir s3 = (t', s4)"
    by force
  have t4: "launches (trace s4) = launches (trace s3) @
      map (\<lambda>e. (script_fork ?pfs, ?path @ ''/'' @ d_name e)) (filter (launchable sys ?path) dir)"
    using common_loop_launches [of sys stage ?path ?pfs t dir s3] l by simp
  have r: "exec_common_scripts cfg sys stage s = PFS_DONE ?pfs t' s4"
    by (simp only: exec_common_scripts_def Let_def assms(1) option.case su prod.case
        sum.case l)
  have "launches (trace (snd (PFS_DONE ?pfs t' s4))) = launches (trace s4)"
    by (simp add: PFS_DONE_def emit_def launches_append)
  then have "launches (trace (snd (exec_common_scripts cfg sys stage s))) =
      launches (trace s) @
      map (\<lambda>e. (script_fork ?pfs, ?path @ ''/'' @ d_name e)) (filter (launchable sys ?path) dir)"
    using r t4 t3 t2 by simp
  then show ?thesis
    by (simp add: launchable_def [abs_def] comp_def)
qed

theorem common_scripts_launch_order_witness:
  "xopen_dir example_os (SECURE_DIR example_config @ ''/'' @ ''post-fs-data'' @ ''.d'') =
     Some example_dir \<and>
   xfork_ret example_os (forks proc_init) = 0 \<and>
   xfork_ret example_os (Suc (forks proc_init)) \<noteq> 0 \<and>
   map snd (launches (trace (snd (exec_common_scripts example_config example_os
      ''post-fs-data'' proc_init)))) =
     [''/data/adb/post-fs-data.d/10-fast'', ''/data/adb/post-fs-data.d/20-slow'']"
  using common_scripts_launch_order
    [of example_os example_config "''post-fs-data''" example_dir proc_init]
  by (simp add: example_os_def example_config_def example_dir_def proc_init_def)



subsection \<open>After the timer has been reaped\<close>

text \<open>
  C2, as the specification states it for a whole run of the timed stage, fails:
  \<open>timer_pid\<close> is a local variable of each phase function, and \<open>exec_module_scripts\<close>
  arms a new timer unless the timestamp it takes is strictly greater than the stored
  deadline. Here the timer of the directory phase is reaped before the deadline (the
  process was ended early, or its sleep was interrupted: the result of
  \<open>clock_nanosleep\<close> is not looked at), so the flag of that phase expires; the caller's
  deadline is 47 s; the module phase starts at 13 s, forks a new timer \<open>200\<close> and
  blocks in \<open>waitpid(-1, ...)\<close> again.
\<close>

theorem flag_rearmed_in_module_phase_counterexample:
  "filter is_timeout (trace (snd (exec_common_scripts example_config os_timer_first
      ''post-fs-data'' proc_init))) = [LOGW timeout_msg] \<and>
   exec_common_scripts example_config os_stage_caller ''post-fs-data'' proc_init =
     (Return, proc_init\<lparr>pfs_timeout := \<lparr>tv_sec = 47, tv_nsec = 500\<rparr>, forks := 1, clocks := 1,
        trace := [LOGI (''* Running post-fs-data.d scripts'' @ newline), Fork 7, Waitpid 7]\<rparr>) \<and>
   added (snd (exec_common_scripts example_config os_stage_caller ''post-fs-data'' proc_init))
     (snd (exec_module_scripts example_config os_stage_caller ''post-fs-data''
        [''alpha'', ''beta'']
        (snd (exec_common_scripts example_config os_stage_caller ''post-fs-data'' proc_init)))) =
     [LOGI (''* Running module post-fs-data scripts'' @ newline),
      Fork 0, Fork 200,
      LOGI (''alpha: exec [post-fs-data.sh]'' @ newline),
      Exec_command xfork ''/data/adb/modules/alpha/post-fs-data.sh'',
      Waitpid_any 201,
      Kill 200]"
  by (simp add: exec_common_scripts_def exec_module_scripts_def Let_def example_config_def
      os_timer_first_def os_stage_caller_def example_os_def example_dir_def proc_init_def
      do_clock_gettime_def PFS_SETUP_def do_xfork_def PFS_WAIT_def do_waitpid_any_def
      PFS_DONE_def emit_def script_fork_def timespec_gt_def module_script_def added_def)

text \<open>
  C2, amended to one call of a phase function. \<open>PFS_WAIT\<close> sets \<open>timer_pid\<close> to \<open>-1\<close>
  exactly when the stage is timed, \<open>timer_pid\<close> is not negative and \<open>waitpid(-1, ...)\<close>
  returns it, and leaves it unchanged otherwise; with a negative \<open>timer_pid\<close> it calls
  nothing. In both loops, once \<open>timer_pid\<close> is negative after the iterations over
  \<open>xs\<close>, it has the same value after any further iterations \<open>ys\<close>, and no further
  \<open>waitpid(-1, ...)\<close> has been made. For the whole call of either phase function, in
  every stage and every environment: the trace it adds has at most one expiry, which
  directly follows the \<open>waitpid(-1, ...)\<close> that returned the timer's pid, and no
  \<open>waitpid(-1, ...)\<close> after it.
\<close>

theorem blocking_flag_expires_once:
  "fst (PFS_WAIT sys pfs t0 s0) =
     (if pfs \<and> 0 \<le> t0 \<and> waitpid_ret sys (waits s0) = t0 then - 1 else t0) \<and>
   (t1 < 0 \<longrightarrow> PFS_WAIT sys pfs t1 s1 = (t1, s1)) \<and>
   (fst (common_loop sys stage path pfs timer_pid xs s) < 0 \<longrightarrow>
      fst (common_loop sys stage path pfs timer_pid (xs @ ys) s) =
        fst (common_loop sys stage path pfs timer_pid xs s) \<and>
      waits (snd (common_loop sys stage path pfs timer_pid (xs @ ys) s)) =
        waits (snd (common_loop sys stage path pfs timer_pid xs s)) \<and>
      filter is_wait_any (trace (snd (common_loop sys stage path pfs timer_pid (xs @ ys) s))) =
        filter is_wait_any (trace (snd (common_loop sys stage path pfs timer_pid xs s)))) \<and>
   (fst (module_loop cfg sys stage pfs timer_pid' ms s') < 0 \<longrightarrow>
      fst (module_loop cfg sys stage pfs timer_pid' (ms @ ns) s') =
        fst (module_loop cfg sys stage pfs timer_pid' ms s') \<and>
      waits (snd (module_loop cfg sys stage pfs timer_pid' (ms @ ns) s')) =
        waits (snd (module_loop cfg sys stage pfs timer_pid' ms s')) \<and>
      filter is_wait_any (trace (snd (module_loop cfg sys stage pfs timer_pid' (ms @ ns) s'))) =
        filter is_wait_any (trace (snd (module_loop cfg sys stage pfs timer_pid' ms s')))) \<and>
   single_expiry (xfork_ret sys (Suc (forks s2)))
     (added s2 (snd (exec_common_scripts cfg sys stage s2))) \<and>
   single_expiry (xfork_ret sys (Suc (forks s2)))
     (added s2 (snd (exec_module_scripts cfg sys stage modules s2)))"
proof -
  have a: "fst (PFS_WAIT sys pfs t0 s0) =
     (if pfs \<and> 0 \<le> t0 \<and> waitpid_ret sys (waits s0) = t0 then - 1 else t0)"
    by (auto simp: PFS_WAIT_def do_waitpid_any_def Let_def)
  have b: "t1 < 0 \<longrightarrow> PFS_WAIT sys pfs t1 s1 = (t1, s1)"
    by (simp add: PFS_WAIT_nonblocking)
  have c: "fst (common_loop sys stage path pfs timer_pid xs s) < 0 \<longrightarrow>
      fst (common_loop sys stage path pfs timer_pid (xs @ ys) s) =
        fst (common_loop sys stage path pfs timer_pid xs s) \<and>
      waits (snd (common_loop sys stage path pfs timer_pid (xs @ ys) s)) =
        waits (snd (common_loop sys stage path pfs timer_pid xs s)) \<and>
      filter is_wait_any (trace (snd (common_loop sys stage path pfs timer_pid (xs @ ys) s))) =
        filter is_wait_any (trace (snd (common_loop sys stage path pfs timer_pid xs s)))"
  proof
    assume neg: "fst (common_loop sys stage path pfs timer_pid xs s) < 0"
    obtain t2 s2 where l: "common_loop sys stage path pfs timer_pid xs s = (t2, s2)"
      by force
    have r: "common_loop sys stage path pfs timer_pid (xs @ ys) s =
             common_loop sys stage path pfs t2 ys s2"
      by (simp add: common_loop_append l)
    have "t2 < 0" using neg l by simp
    then have n: "common_loop sys stage path pfs t2 ys s2 =
       (t2, s2\<lparr>trace := trace s2 @
          concat (map (common_launch stage path (script_fork pfs))
            (filter (launchable sys path) ys))\<rparr>)"
      by (simp add: common_loop_nonblocking)
    show "fst (common_loop sys stage path pfs timer_pid (xs @ ys) s) =
        fst (common_loop sys stage path pfs timer_pid xs s) \<and>
      waits (snd (common_loop sys stage path pfs timer_pid (xs @ ys) s)) =
        waits (snd (common_loop sys stage path pfs timer_pid xs s)) \<and>
      filter is_wait_any (trace (snd (common_loop sys stage path pfs timer_pid (xs @ ys) s))) =
        filter is_wait_any (trace (snd (common_loop sys stage path pfs timer_pid xs s)))"
      by (simp add: r n l common_launch_no_wait)
  qed
  have d: "fst (module_loop cfg sys stage pfs timer_pid' ms s') < 0 \<longrightarrow>
      fst (module_loop cfg sys stage pfs timer_pid' (ms @ ns) s') =
        fst (module_loop cfg sys stage pfs timer_pid' ms s') \<and>
      waits (snd (module_loop cfg sys stage pfs timer_pid' (ms @ ns) s')) =
        waits (snd (module_loop cfg sys stage pfs timer_pid' ms s')) \<and>
      filter is_wait_any (trace (snd (module_loop cfg sys stage pfs timer_pid' (ms @ ns) s'))) =
        filter is_wait_any (trace (snd (module_loop cfg sys stage pfs timer_pid' ms s')))"
  proof
    assume neg: "fst (module_loop cfg sys stage pfs timer_pid' ms s') < 0"
    obtain t2 s2 where l: "module_loop cfg sys stage pfs timer_pid' ms s' = (t2, s2)"
      by force
    have r: "module_loop cfg sys stage pfs timer_pid' (ms @ ns) s' =
             module_loop cfg sys stage pfs t2 ns s2"
      by (simp add: module_loop_append l)
    have "t2 < 0" using neg l by simp
    then have n: "module_loop cfg sys stage pfs t2 ns s2 =
       (t2, s2\<lparr>trace := trace s2 @
          concat (map (module_launch cfg stage (script_fork pfs))
            (filter (module_present cfg sys stage) ns))\<rparr>)"
      by (simp add: module_loop_nonblocking)
    show "fst (module_loop cfg sys stage pfs timer_pid' (ms @ ns) s') =
        fst (module_loop cfg sys stage pfs timer_pid' ms s') \<and>
      waits (snd (module_loop cfg sys stage pfs timer_pid' (ms @ ns) s')) =
        waits (snd (module_loop cfg sys stage pfs timer_pid' ms s')) \<and>
      filter is_wait_any (trace (snd (module_loop cfg sys stage pfs timer_pid' (ms @ ns) s'))) =
        filter is_wait_any (trace (snd (module_loop cfg sys stage pfs timer_pid' ms s')))"
      by (simp add: r n l module_launch_no_wait)
  qed
  have e: "single_expiry (xfork_ret sys (Suc (forks s2)))
     (added s2 (snd (exec_common_scripts cfg sys stage s2)))"
    using exec_common_scripts_single_expiry [of cfg sys stage s2]
    by (auto simp: added_append)
  have f: "single_expiry (xfork_ret sys (Suc (forks s2)))
     (added s2 (snd (exec_module_scripts cfg sys stage modules s2)))"
    using exec_module_scripts_single_expiry [of cfg sys stage modules s2]
    by (auto simp: added_append)
  show ?thesis
    by (intro conjI a b c d e f)
qed

theorem blocking_flag_expires_once_witness:
  "fst (PFS_WAIT os_timer_first True 100 proc_init) = - 1 \<and>
   PFS_WAIT os_timer_first True (- 1) proc_init = (- 1, proc_init) \<and>
   fst (common_loop os_timer_first ''post-fs-data'' ''/data/adb/post-fs-data.d'' True 100
          (take 2 example_dir) proc_init) = - 1 \<and>
   fst (common_loop os_timer_first ''post-fs-data'' ''/data/adb/post-fs-data.d'' True 100
          (take 2 example_dir @ drop 2 example_dir) proc_init) = - 1 \<and>
   waits (snd (common_loop os_timer_first ''post-fs-data'' ''/data/adb/post-fs-data.d'' True 100
          (take 2 example_dir @ drop 2 example_dir) proc_init)) = 1 \<and>
   filter is_wait_any (trace (snd (common_loop os_timer_first ''post-fs-data''
          ''/data/adb/post-fs-data.d'' True 100
          (take 2 example_dir @ drop 2 example_dir) proc_init))) = [Waitpid_any 100] \<and>
   fst (module_loop example_config os_timer_first ''post-fs-data'' True 100
          [''alpha''] proc_init) = - 1 \<and>
   fst (module_loop example_config os_timer_first ''post-fs-data'' True 100
          ([''alpha''] @ [''beta'', ''alpha'']) proc_init) = - 1 \<and>
   waits (snd (module_loop example_config os_timer_first ''post-fs-data'' True 100
          ([''alpha''] @ [''beta'', ''alpha'']) proc_init)) = 1 \<and>
   filter is_wait_any (trace (snd (module_loop example_config os_timer_first ''post-fs-data''
          True 100 ([''alpha''] @ [''beta'', ''alpha'']) proc_init))) = [Waitpid_any 100] \<and>
   single_expiry 100 (added example_armed
     (snd (exec_common_scripts example_config os_timer_first ''post-fs-data'' example_armed))) \<and>
   single_expiry 100 (added example_armed
     (snd (exec_module_scripts example_config os_timer_first ''post-fs-data''
        [''alpha'', ''beta''] example_armed)))"
proof -
  have c: "common_loop os_timer_first ''post-fs-data'' ''/data/adb/post-fs-data.d'' True 100
          (take 2 example_dir) proc_init =
     (- 1, proc_init\<lparr>waits := 1, trace :=
        [LOGI (''post-fs-data.d: exec [10-fast]'' @ newline),
         Exec_command xfork ''/data/adb/post-fs-data.d/10-fast'',
         Waitpid_any 100, LOGW timeout_msg]\<rparr>)"
    by (simp add: example_dir_def PFS_WAIT_def do_waitpid_any_def os_timer_first_def
        example_os_def proc_init_def emit_def script_fork_def)
  have m: "module_loop example_config os_timer_first ''post-fs-data'' True 100
          [''alpha''] proc_init =
     (- 1, proc_init\<lparr>waits := 1, trace :=
        [LOGI (''alpha: exec [post-fs-data.sh]'' @ newline),
         Exec_command xfork ''/data/adb/modules/alpha/post-fs-data.sh'',
         Waitpid_any 100, LOGW timeout_msg]\<rparr>)"
    by (simp add: PFS_WAIT_def do_waitpid_any_def os_timer_first_def module_script_def
        example_os_def example_config_def proc_init_def emit_def script_fork_def)
  show ?thesis
    using blocking_flag_expires_once
      [of os_timer_first True 100 proc_init "- 1" proc_init "''post-fs-data''"
          "''/data/adb/post-fs-data.d''" 100 "take 2 example_dir" proc_init
          "drop 2 example_dir" example_config 100 "[''alpha'']" proc_init
          "[''beta'', ''alpha'']" example_armed "[''alpha'', ''beta'']"]
    unfolding c m
    by (simp add: proc_init_def os_timer_first_def example_os_def example_armed_def)
qed




end
